theory Spec2Isabelle
  imports Complex_Main
begin

section \<open>Numbers, vectors and boxes\<close>

text \<open>
  The program is a browser script (\<^verbatim>\<open>src/unnamed/part_000\<close>) that calls the three.js
  scene-graph library. JavaScript numbers are modelled as exact reals: the arithmetic of
  the script is written out operation by operation, but rounding to binary floating point
  (and the 32-bit storage of vertex attributes) is not part of the model, and neither are
  the special values NaN and Infinity. Loop counters, array lengths and buffer indices are
  natural numbers; the segment counts handed to the plane constructor are integers,
  because \<^verbatim>\<open>width - 1\<close> is negative for an empty grid.
\<close>

datatype Vector3 = Vector3 (vx: real) (vy: real) (vz: real)

definition addVectors :: "Vector3 \<Rightarrow> Vector3 \<Rightarrow> Vector3" where
  "addVectors a b = Vector3 (vx a + vx b) (vy a + vy b) (vz a + vz b)"

definition subVectors :: "Vector3 \<Rightarrow> Vector3 \<Rightarrow> Vector3" where
  "subVectors a b = Vector3 (vx a - vx b) (vy a - vy b) (vz a - vz b)"

definition multiplyScalar :: "Vector3 \<Rightarrow> real \<Rightarrow> Vector3" where
  "multiplyScalar a s = Vector3 (vx a * s) (vy a * s) (vz a * s)"

definition negate :: "Vector3 \<Rightarrow> Vector3" where
  "negate a = Vector3 (- vx a) (- vy a) (- vz a)"

definition cross :: "Vector3 \<Rightarrow> Vector3 \<Rightarrow> Vector3" where
  "cross a b = Vector3 (vy a * vz b - vz a * vy b)
                       (vz a * vx b - vx a * vz b)
                       (vx a * vy b - vy a * vx b)"

definition distanceToSquared :: "Vector3 \<Rightarrow> Vector3 \<Rightarrow> real" where
  "distanceToSquared a b = (vx a - vx b)\<^sup>2 + (vy a - vy b)\<^sup>2 + (vz a - vz b)\<^sup>2"

definition vlength :: "Vector3 \<Rightarrow> real" where
  "vlength a = sqrt ((vx a)\<^sup>2 + (vy a)\<^sup>2 + (vz a)\<^sup>2)"

text \<open>
  \<^verbatim>\<open>Vector3.normalize\<close> divides by \<^verbatim>\<open>length() || 1\<close>: the zero vector stays zero.
\<close>

definition normalize :: "Vector3 \<Rightarrow> Vector3" where
  "normalize a = (let l = vlength a in multiplyScalar a (1 / (if l = 0 then 1 else l)))"

definition origin :: Vector3 where
  "origin = Vector3 0 0 0"

text \<open>
  \<^verbatim>\<open>THREE.Box3\<close>. A fresh box has minimum \<open>+Infinity\<close> and maximum \<open>-Infinity\<close>
  and is empty; \<open>EmptyBox\<close> stands for it. \<^verbatim>\<open>expandByPoint\<close> takes the componentwise
  minimum and maximum, so the first point of an empty box becomes both corners.
\<close>

datatype Box3 = EmptyBox | Box Vector3 Vector3

fun expandByPoint :: "Box3 \<Rightarrow> Vector3 \<Rightarrow> Box3" where
  "expandByPoint EmptyBox p = Box p p"
| "expandByPoint (Box lo hi) p =
     Box (Vector3 (min (vx lo) (vx p)) (min (vy lo) (vy p)) (min (vz lo) (vz p)))
         (Vector3 (max (vx hi) (vx p)) (max (vy hi) (vy p)) (max (vz hi) (vz p)))"

definition setFromBufferAttribute :: "Vector3 list \<Rightarrow> Box3" where
  "setFromBufferAttribute ps = foldl expandByPoint EmptyBox ps"

text \<open>\<^verbatim>\<open>Box3.getCenter\<close>: the origin for an empty box, the midpoint of the corners otherwise.\<close>

fun getCenter :: "Box3 \<Rightarrow> Vector3" where
  "getCenter EmptyBox = Vector3 0 0 0"
| "getCenter (Box lo hi) = multiplyScalar (addVectors lo hi) (1 / 2)"

datatype Sphere = Sphere Vector3 real

section \<open>Buffer geometry\<close>

text \<open>
  \<^verbatim>\<open>THREE.BufferGeometry\<close>: the vertex attributes \<^verbatim>\<open>position\<close>, \<^verbatim>\<open>normal\<close> and
  \<^verbatim>\<open>uv\<close> (absent attributes are \<open>None\<close>), the index buffer (\<open>None\<close> for an unindexed
  geometry) and the cached bounding volumes (\<open>None\<close> is JavaScript's \<^verbatim>\<open>null\<close>).
  \<^verbatim>\<open>attribute.count\<close> is the length of the list.
\<close>

record BufferGeometry =
  position :: "Vector3 list option"
  normal :: "Vector3 list option"
  uv :: "(real \<times> real) list option"
  index :: "nat list option"
  boundingBox :: "Box3 option"
  boundingSphere :: "Sphere option"

definition position_count :: "BufferGeometry \<Rightarrow> nat" where
  "position_count g = (case position g of None \<Rightarrow> 0 | Some ps \<Rightarrow> length ps)"

definition computeBoundingBox :: "BufferGeometry \<Rightarrow> BufferGeometry" where
  "computeBoundingBox g =
     g\<lparr>boundingBox := Some (case position g of None \<Rightarrow> EmptyBox
                                | Some ps \<Rightarrow> setFromBufferAttribute ps)\<rparr>"

text \<open>
  \<^verbatim>\<open>computeBoundingSphere\<close>: centred at the bounding-box centre, with the largest
  distance to a vertex as radius; without a position attribute the sphere is the default
  one (centre at the origin, radius -1).
\<close>

definition computeBoundingSphere :: "BufferGeometry \<Rightarrow> BufferGeometry" where
  "computeBoundingSphere g =
     g\<lparr>boundingSphere := Some (case position g of
          None \<Rightarrow> (case boundingSphere g of None \<Rightarrow> Sphere origin (- 1) | Some s \<Rightarrow> s)
        | Some ps \<Rightarrow>
            (let c = getCenter (setFromBufferAttribute ps)
             in Sphere c (sqrt (foldl (\<lambda>m p. max m (distanceToSquared c p)) 0 ps))))\<rparr>"

text \<open>
  \<^verbatim>\<open>geometry.translate(x, y, z)\<close> applies a translation matrix: every position moves by
  the offset, every normal goes through the (identity) normal matrix and is normalised
  again, and bounding volumes that exist are recomputed.
\<close>

definition translate :: "Vector3 \<Rightarrow> BufferGeometry \<Rightarrow> BufferGeometry" where
  "translate off g =
     (let g1 = g\<lparr>position := map_option (map (\<lambda>p. addVectors p off)) (position g),
                  normal := map_option (map normalize) (normal g)\<rparr>;
          g2 = (if boundingBox g1 \<noteq> None then computeBoundingBox g1 else g1)
      in if boundingSphere g2 \<noteq> None then computeBoundingSphere g2 else g2)"

text \<open>
  Modelled from the spec: \<^verbatim>\<open>geometry.center()\<close> is \<^verbatim>\<open>BufferGeometry.center\<close> of the
  three.js library, which is not among the repository's files. The spec describes it as
  "recenter all vertex positions so the geometric bounding box is centered at the origin";
  the library does so by computing the bounding box and translating by the negated centre.
  The library applies the translation as a 4 by 4 matrix with a perspective divide, so a
  single NaN coordinate of a vertex makes all three coordinates of that vertex NaN, and a
  NaN corner of the bounding box makes the offset NaN. The model moves each coordinate on
  its own over the reals; it describes the library where every coordinate is a number,
  which for the converter's grids means at least two vertices along each axis.
\<close>

definition center :: "BufferGeometry \<Rightarrow> BufferGeometry" where
  "center g =
     (let g1 = computeBoundingBox g;
          off = negate (getCenter (the (boundingBox g1)))
      in translate off g1)"

text \<open>The centre of the bounding box of a geometry's current vertex positions.\<close>

definition bbox_center :: "BufferGeometry \<Rightarrow> Vector3" where
  "bbox_center g = getCenter (the (boundingBox (computeBoundingBox g)))"

text \<open>
  \<^verbatim>\<open>computeVertexNormals\<close> for an indexed geometry: the normals start at zero, every
  triangle \<open>(vA, vB, vC)\<close> of the index buffer adds the cross product
  \<open>(pC - pB) \<times> (pA - pB)\<close> to the normals of its three corners, and the sums are
  normalised. A triangle that names a vertex outside the position buffer is skipped here
  (its cross product would be NaN). For an unindexed geometry consecutive vertex triples
  are the triangles.
\<close>

definition addFaceNormal :: "Vector3 list \<Rightarrow> nat \<times> nat \<times> nat \<Rightarrow> Vector3 list \<Rightarrow> Vector3 list" where
  "addFaceNormal ps tri ns =
     (case tri of (vA, vB, vC) \<Rightarrow>
        if vA < length ps \<and> vB < length ps \<and> vC < length ps then
          (let cb = cross (subVectors (ps ! vC) (ps ! vB)) (subVectors (ps ! vA) (ps ! vB));
               nA = addVectors (ns ! vA) cb;
               nB = addVectors (ns ! vB) cb;
               nC = addVectors (ns ! vC) cb
           in ns[vA := nA, vB := nB, vC := nC])
        else ns)"

fun triangles :: "nat list \<Rightarrow> (nat \<times> nat \<times> nat) list" where
  "triangles (a # b # c # rest) = (a, b, c) # triangles rest"
| "triangles _ = []"

definition computeVertexNormals :: "BufferGeometry \<Rightarrow> BufferGeometry" where
  "computeVertexNormals g =
     (case position g of
        None \<Rightarrow> g
      | Some ps \<Rightarrow>
          (let zero = replicate (length ps) origin;
               tris = (case index g of Some ix \<Rightarrow> triangles ix
                       | None \<Rightarrow> triangles [0..<length ps])
           in g\<lparr>normal := Some (map normalize (fold (addFaceNormal ps) tris zero))\<rparr>))"

text \<open>
  Modelled from the spec: \<^verbatim>\<open>new THREE.PlaneGeometry(width, height, widthSegments,
  heightSegments)\<close> is the plane constructor of the three.js library, which is not among
  the repository's files. The spec describes its result as a planar grid with the given
  subdivisions, its vertices "connected in a regular grid of quads (each decomposed into
  two triangles)" with "row-major strip indexing" and "planar UV mapping matching the grid
  coordinates". The library builds \<open>(widthSegments + 1) \<times> (heightSegments + 1)\<close>
  vertices row by row in the plane \<open>z = 0\<close>, and for the quad in column \<open>ix\<close> of row
  \<open>iy\<close> the two triangles \<open>(a, b, d)\<close> and \<open>(b, c, d)\<close> of its corners
  \<open>a = ix + gridX1 * iy\<close>, \<open>b = ix + gridX1 * (iy + 1)\<close>,
  \<open>c = (ix + 1) + gridX1 * (iy + 1)\<close>, \<open>d = (ix + 1) + gridX1 * iy\<close>.
  With zero segments along an axis (a grid of width or height 1) JavaScript divides by
  zero and the coordinate along that axis is NaN; the model's value for that coordinate is
  arbitrary there (division by zero gives 0 in HOL). Of such a grid the statements below
  read only the number of vertices, the index buffer, and the heights as long as no
  centring has run; centring would spread the NaN to the heights.
\<close>

definition plane_vertices :: "real \<Rightarrow> real \<Rightarrow> int \<Rightarrow> int \<Rightarrow> Vector3 list" where
  "plane_vertices width height gridX gridY =
     (let width_half = width / 2;
          height_half = height / 2;
          segment_width = width / real_of_int gridX;
          segment_height = height / real_of_int gridY
      in concat (map (\<lambda>iy. map (\<lambda>ix.
            Vector3 (real ix * segment_width - width_half)
                    (- (real iy * segment_height - height_half)) 0)
          [0..<nat (gridX + 1)]) [0..<nat (gridY + 1)]))"

definition plane_uvs :: "int \<Rightarrow> int \<Rightarrow> (real \<times> real) list" where
  "plane_uvs gridX gridY =
     concat (map (\<lambda>iy. map (\<lambda>ix.
         (real ix / real_of_int gridX, 1 - real iy / real_of_int gridY))
       [0..<nat (gridX + 1)]) [0..<nat (gridY + 1)])"

definition quad_indices :: "nat \<Rightarrow> nat \<Rightarrow> nat \<Rightarrow> nat list" where
  "quad_indices gridX1 iy ix =
     (let a = ix + gridX1 * iy;
          b = ix + gridX1 * (iy + 1);
          c = (ix + 1) + gridX1 * (iy + 1);
          d = (ix + 1) + gridX1 * iy
      in [a, b, d, b, c, d])"

definition plane_indices :: "int \<Rightarrow> int \<Rightarrow> nat list" where
  "plane_indices gridX gridY =
     concat (map (\<lambda>iy. concat (map (\<lambda>ix. quad_indices (nat (gridX + 1)) iy ix)
       [0..<nat gridX])) [0..<nat gridY])"

text \<open>
  Modelled from the spec: the constructor itself, assembling the grid described above
  (three.js code, not among the repository's files). A new plane has flat normals and no
  bounding volumes yet.
\<close>

definition PlaneGeometry :: "real \<Rightarrow> real \<Rightarrow> int \<Rightarrow> int \<Rightarrow> BufferGeometry" where
  "PlaneGeometry width height widthSegments heightSegments =
     \<lparr>position = Some (plane_vertices width height widthSegments heightSegments),
      normal = Some (replicate (nat (widthSegments + 1) * nat (heightSegments + 1))
                       (Vector3 0 0 1)),
      uv = Some (plane_uvs widthSegments heightSegments),
      index = Some (plane_indices widthSegments heightSegments),
      boundingBox = None,
      boundingSphere = None\<rparr>"

section \<open>The depth-to-geometry converter\<close>

text \<open>
  The depth tensor handed to \<^verbatim>\<open>createMeshFromDepthMap\<close>: its \<^verbatim>\<open>shape\<close>
  \<open>(height, width)\<close> and the nested rows that \<^verbatim>\<open>await depthMapTensor.array()\<close>
  returns. A tensor's rows agree with its shape; \<open>tensor_ok\<close> says so.
\<close>

record DepthTensor =
  shape :: "nat \<times> nat"
  array :: "real list list"

definition tensor_ok :: "DepthTensor \<Rightarrow> bool" where
  "tensor_ok t = (length (array t) = fst (shape t) \<and>
                  list_all (\<lambda>row. length row = snd (shape t)) (array t))"

text \<open>
  The four form controls the converter reads: the two sliders' values (in percent) and
  the two checkboxes.
\<close>

record Settings =
  depth_scale :: real
  base_height :: real
  use_normal_map :: bool
  auto_center :: bool

text \<open>
  \<^verbatim>\<open>depthMap[y][i % width]\<close> with \<^verbatim>\<open>y = Math.floor(i / width)\<close>. Reading a row that
  does not exist gives \<^verbatim>\<open>undefined\<close>, and indexing that throws a TypeError
  (\<open>RowUndefined\<close>; with \<open>width = 0\<close> the row number is not a number and the row is
  undefined as well). A column that does not exist gives \<^verbatim>\<open>undefined\<close>, and the height
  computed from it is NaN: the script goes on with it, the model stops with
  \<open>ValueUndefined\<close> because NaN is not a real. Neither happens for a tensor whose rows
  agree with its shape.
\<close>

datatype depth_error = RowUndefined | ValueUndefined

definition depth_at :: "real list list \<Rightarrow> nat \<Rightarrow> nat \<Rightarrow> depth_error + real" where
  "depth_at depthMap width i =
     (if width = 0 then Inl RowUndefined
      else let y = i div width in
        if y < length depthMap then
          (if i mod width < length (depthMap ! y) then Inr (depthMap ! y ! (i mod width))
           else Inl ValueUndefined)
        else Inl RowUndefined)"

text \<open>\<^verbatim>\<open>positionAttribute.setZ(i, z)\<close>, inside the buffer.\<close>

definition setZ :: "nat \<Rightarrow> real \<Rightarrow> Vector3 list \<Rightarrow> Vector3 list" where
  "setZ i z ps = ps[i := Vector3 (vx (ps ! i)) (vy (ps ! i)) z]"

text \<open>
  The displacement loop
  \<^verbatim>\<open>for (let i = 0; i < positionAttribute.count; i++) { ... setZ(i, z) }\<close>,
  from counter \<open>i\<close> on.
\<close>

function displace :: "real list list \<Rightarrow> nat \<Rightarrow> real \<Rightarrow> real \<Rightarrow> nat \<Rightarrow> Vector3 list
    \<Rightarrow> depth_error + Vector3 list" where
  "displace depthMap width extrusionScale baseHeight i ps =
     (if i < length ps then
        (case depth_at depthMap width i of
           Inl e \<Rightarrow> Inl e
         | Inr depth \<Rightarrow>
             (let z = (1 - depth) * extrusionScale + (baseHeight * 20)
              in displace depthMap width extrusionScale baseHeight (Suc i) (setZ i z ps)))
      else Inr ps)"
  by pat_completeness auto
termination
  by (relation "measure (\<lambda>(depthMap, width, extrusionScale, baseHeight, i, ps). length ps - i)")
     (auto simp: setZ_def)

declare displace.simps [simp del]

text \<open>
  The first half of \<^verbatim>\<open>createMeshFromDepthMap\<close> (source lines 180 to 205): read the
  settings, build the plane with \<open>width - 1\<close> by \<open>height - 1\<close> segments, displace
  every vertex, recompute the normals.
\<close>

definition getAttribute_position :: "BufferGeometry \<Rightarrow> Vector3 list" where
  "getAttribute_position g = (case position g of None \<Rightarrow> [] | Some ps \<Rightarrow> ps)"

definition displacedGeometry :: "DepthTensor \<Rightarrow> Settings \<Rightarrow> depth_error + BufferGeometry" where
  "displacedGeometry depthMapTensor cfg =
     (let depthMap = array depthMapTensor;
          height = fst (shape depthMapTensor);
          width = snd (shape depthMapTensor);
          depthScale = depth_scale cfg / 100;
          baseHeight = base_height cfg / 100;
          extrusionScale = 100 * depthScale;
          geometry = PlaneGeometry (real width) (real height) (int width - 1) (int height - 1);
          positionAttribute = getAttribute_position geometry
      in case displace depthMap width extrusionScale baseHeight 0 positionAttribute of
           Inl e \<Rightarrow> Inl e
         | Inr ps \<Rightarrow> Inr (computeVertexNormals (geometry\<lparr>position := Some ps\<rparr>)))"

section \<open>Scene objects and the application state\<close>

text \<open>
  Geometries, materials and textures are JavaScript objects that several meshes may
  refer to, so they live in a store addressed by references; a mesh holds the references.
  A mesh node itself (its identity \<open>uuid\<close> and its transform) is never changed once it
  is the current mesh, so mesh nodes are values.
\<close>

type_synonym ref = nat

record HTMLImage =
  img_width :: nat
  img_height :: nat

record Texture =
  tex_image :: "HTMLImage option"
  needsUpdate :: bool

datatype Side = FrontSide | BackSide | DoubleSide

record Material =
  mat_map :: "ref option"
  normalMap :: "ref option"
  normalScale :: "real \<times> real"
  side :: Side

record Mesh =
  uuid :: nat
  geometry :: "ref option"
  material :: "ref option"
  mesh_position :: Vector3
  rotation :: Vector3

text \<open>
  The life of the GPU-backed objects, as a log: \<open>Created\<close> when the script constructs a
  geometry, a texture or a material, \<open>Disposed\<close> when it calls \<^verbatim>\<open>dispose()\<close> on one.
  The library's \<^verbatim>\<open>Material.dispose()\<close> releases the material only; a texture is released
  by a \<^verbatim>\<open>dispose()\<close> call of its own.
\<close>

datatype Resource = GeometryRes ref | MaterialRes ref | TextureRes ref

datatype Event = Created Resource | Disposed Resource

text \<open>
  The failures of the export path, one per \<^verbatim>\<open>throw new Error(...)\<close> of the script and
  one for the serializer's failure callback, which carries the serializer's message:
  \<open>NoModelError\<close> "No hay modelo para descargar...",
  \<open>MissingGeometryError\<close> "El modelo no tiene geometria valida",
  \<open>EmptyMeshError\<close> "El modelo no tiene vertices validos",
  \<open>MissingTextureError\<close> "El modelo no tiene textura valida".
  (The messages are written here without their accents.)
  \<open>ScriptTypeError\<close> is the TypeError of reading a property of a missing object.
\<close>

datatype export_error =
    NoModelError
  | MissingGeometryError
  | EmptyMeshError
  | MissingTextureError
  | ExportSerializationError string
  | ScriptTypeError

datatype Resolution = Resolution nat nat | NotAvailable

record Metadata =
  vertices :: nat
  faces :: real
  textureResolution :: Resolution

record ExportOptions =
  binary :: bool
  includeCustomExtensions :: bool
  embedImages :: bool
  onlyVisible :: bool
  maxTextureSize :: nat
  forceIndices :: bool
  truncateDrawRange :: bool
  generatedBy :: string
  originalImage :: string
  createdAt :: string
  version :: string
  metadata :: Metadata

text \<open>
  What the serializer is called with: the mesh of the export scene (its two lights are
  fixed and left out) and the options.
\<close>

record ExportRequest =
  export_mesh :: Mesh
  export_options :: ExportOptions

datatype exporter_outcome = Serialized "nat list" | SerializerFailed string

text \<open>
  The application state: the object store, the live scene's meshes, the global
  \<^verbatim>\<open>currentMesh\<close>, and what the user can observe of the export (alerts, the files
  handed to the browser's download, the export button, the requests the serializer
  received). \<open>events\<close> is the log of constructions and \<^verbatim>\<open>dispose()\<close> calls in program
  order; \<open>cleanup_timers\<close> holds the export clones whose 3-second cleanup callback is
  still pending. Camera framing and the progress indicator are left to the renderer and
  the page.
\<close>

record World =
  geometries :: "ref \<Rightarrow> BufferGeometry"
  materials :: "ref \<Rightarrow> Material"
  textures :: "ref \<Rightarrow> Texture"
  next_ref :: ref
  scene :: "Mesh list"
  currentMesh :: "Mesh option"
  events :: "Event list"
  alerts :: "string list"
  downloads :: "(string \<times> nat list) list"
  downloadBtn_disabled :: bool
  exporter_calls :: "ExportRequest list"
  cleanup_timers :: "Mesh list"

definition new_geometry :: "BufferGeometry \<Rightarrow> World \<Rightarrow> ref \<times> World" where
  "new_geometry g w =
     (next_ref w, w\<lparr>geometries := (geometries w)(next_ref w := g),
                    next_ref := Suc (next_ref w),
                    events := events w @ [Created (GeometryRes (next_ref w))]\<rparr>)"

definition new_texture :: "Texture \<Rightarrow> World \<Rightarrow> ref \<times> World" where
  "new_texture t w =
     (next_ref w, w\<lparr>textures := (textures w)(next_ref w := t),
                    next_ref := Suc (next_ref w),
                    events := events w @ [Created (TextureRes (next_ref w))]\<rparr>)"

definition new_material :: "Material \<Rightarrow> World \<Rightarrow> ref \<times> World" where
  "new_material m w =
     (next_ref w, w\<lparr>materials := (materials w)(next_ref w := m),
                    next_ref := Suc (next_ref w),
                    events := events w @ [Created (MaterialRes (next_ref w))]\<rparr>)"

definition new_uuid :: "World \<Rightarrow> nat \<times> World" where
  "new_uuid w = (next_ref w, w\<lparr>next_ref := Suc (next_ref w)\<rparr>)"

text \<open>A method call that changes the geometry object behind a reference in place.\<close>

definition update_geometry :: "ref \<Rightarrow> (BufferGeometry \<Rightarrow> BufferGeometry) \<Rightarrow> World \<Rightarrow> World" where
  "update_geometry g f w = w\<lparr>geometries := (geometries w)(g := f (geometries w g))\<rparr>"

text \<open>
  \<^verbatim>\<open>createMeshFromDepthMap\<close>: the displaced geometry, a new texture over the source
  image, a new standard material (with the same texture as normal map, scaled by 0.5,
  when the checkbox is set), a new mesh turned by a quarter about the x axis, and the
  optional centring of the geometry. If the displacement throws, nothing of the mesh
  exists for the caller and the state is as before.
\<close>

definition createMeshFromDepthMap ::
    "DepthTensor \<Rightarrow> HTMLImage \<Rightarrow> Settings \<Rightarrow> World \<Rightarrow> depth_error + (Mesh \<times> World)" where
  "createMeshFromDepthMap depthMapTensor textureImage cfg w =
     (case displacedGeometry depthMapTensor cfg of
        Inl e \<Rightarrow> Inl e
      | Inr geometry0 \<Rightarrow>
          (let useNormalMap = use_normal_map cfg;
               autoCenter = auto_center cfg;
               (g, w1) = new_geometry geometry0 w;
               (texture, w2) = new_texture \<lparr>tex_image = Some textureImage, needsUpdate = True\<rparr> w1;
               normalStrength = 1 / 2;
               (m, w3) = new_material
                   \<lparr>mat_map = Some texture,
                    normalMap = (if useNormalMap then Some texture else None),
                    normalScale = (if useNormalMap then (normalStrength, normalStrength)
                                   else (1, 1)),
                    side = DoubleSide\<rparr> w2;
               (u, w4) = new_uuid w3;
               mesh = \<lparr>uuid = u, geometry = Some g, material = Some m,
                       mesh_position = Vector3 0 0 0,
                       rotation = Vector3 (- (pi / 2)) 0 0\<rparr>
           in if autoCenter
              then Inr (mesh\<lparr>mesh_position := Vector3 0 0 0\<rparr>, update_geometry g center w4)
              else Inr (mesh, w4)))"

text \<open>The vertex heights (z coordinates) of a geometry, in buffer order.\<close>

definition heights :: "BufferGeometry \<Rightarrow> real list" where
  "heights g = map vz (getAttribute_position g)"

text \<open>The geometry a mesh refers to.\<close>

definition mesh_geometry :: "World \<Rightarrow> Mesh \<Rightarrow> BufferGeometry" where
  "mesh_geometry w mesh = geometries w (the (geometry mesh))"

section \<open>The export preparer\<close>

definition validateModelForExport :: "World \<Rightarrow> Mesh \<Rightarrow> export_error + bool" where
  "validateModelForExport w mesh =
     (case geometry mesh of
        None \<Rightarrow> Inl MissingGeometryError
      | Some g \<Rightarrow>
          if position (geometries w g) = None \<or> position_count (geometries w g) = 0
          then Inl EmptyMeshError
          else (case material mesh of
                  None \<Rightarrow> Inl MissingTextureError
                | Some m \<Rightarrow>
                    if mat_map (materials w m) = None then Inl MissingTextureError
                    else Inr True))"

text \<open>
  \<^verbatim>\<open>mesh.clone()\<close> is \<^verbatim>\<open>Object3D.clone\<close> of the three.js library, specialised by
  \<^verbatim>\<open>Mesh.copy\<close>: the new node gets an identity of its own and a copy of the transform,
  and its \<^verbatim>\<open>geometry\<close> and \<^verbatim>\<open>material\<close> fields are assigned the source's
  (\<^verbatim>\<open>this.geometry = source.geometry\<close>), so the clone refers to the same geometry and
  material objects as the original.
\<close>

definition clone :: "Mesh \<Rightarrow> World \<Rightarrow> Mesh \<times> World" where
  "clone mesh w = (let (u, w1) = new_uuid w in (mesh\<lparr>uuid := u\<rparr>, w1))"

text \<open>
  \<^verbatim>\<open>optimizeModelForExport\<close>: clone the mesh, then centre the clone's geometry, recompute
  its normals and its bounding box and sphere. A clone without a geometry would stop the
  script with a TypeError.
\<close>

definition optimizeModelForExport :: "Mesh \<Rightarrow> World \<Rightarrow> export_error + (Mesh \<times> World)" where
  "optimizeModelForExport mesh w =
     (let (optimizedMesh, w1) = clone mesh w
      in case geometry optimizedMesh of
           None \<Rightarrow> Inl ScriptTypeError
         | Some g \<Rightarrow>
             (let w2 = update_geometry g center w1;
                  w3 = update_geometry g computeVertexNormals w2;
                  w4 = update_geometry g computeBoundingBox w3;
                  w5 = update_geometry g computeBoundingSphere w4
              in Inr (optimizedMesh, w5)))"

text \<open>
  The \<^verbatim>\<open>metadata\<close> object of the export options: the position attribute's count, the
  index count divided by three (0 without an index), and the size of the texture image.
\<close>

definition export_metadata :: "World \<Rightarrow> Mesh \<Rightarrow> export_error + Metadata" where
  "export_metadata w meshForExport =
     (case geometry meshForExport of
        None \<Rightarrow> Inl ScriptTypeError
      | Some g \<Rightarrow>
          (case position (geometries w g) of
             None \<Rightarrow> Inl ScriptTypeError
           | Some ps \<Rightarrow>
               (case material meshForExport of
                  None \<Rightarrow> Inl ScriptTypeError
                | Some m \<Rightarrow>
                    (case mat_map (materials w m) of
                       None \<Rightarrow> Inl ScriptTypeError
                     | Some t \<Rightarrow>
                         Inr \<lparr>vertices = length ps,
                              faces = (case index (geometries w g) of
                                         Some ix \<Rightarrow> real (length ix) / 3
                                       | None \<Rightarrow> 0),
                              textureResolution =
                                (case tex_image (textures w t) of
                                   Some im \<Rightarrow> Resolution (img_width im) (img_height im)
                                 | None \<Rightarrow> NotAvailable)\<rparr>))))"

definition error_message :: "export_error \<Rightarrow> string" where
  "error_message e =
     (case e of
        NoModelError \<Rightarrow> ''No hay modelo para descargar. Por favor, genera un modelo primero.''
      | MissingGeometryError \<Rightarrow> ''El modelo no tiene geometria valida''
      | EmptyMeshError \<Rightarrow> ''El modelo no tiene vertices validos''
      | MissingTextureError \<Rightarrow> ''El modelo no tiene textura valida''
      | ExportSerializationError msg \<Rightarrow> msg
      | ScriptTypeError \<Rightarrow> ''TypeError'')"

text \<open>
  The \<^verbatim>\<open>catch\<close> and \<^verbatim>\<open>finally\<close> blocks of \<^verbatim>\<open>downloadGLB\<close>: alert the error's
  message (a fixed text when it has none) and enable the export button again.
\<close>

definition export_failed :: "export_error \<Rightarrow> World \<Rightarrow> World" where
  "export_failed e w =
     w\<lparr>alerts := alerts w @
          [if error_message e = []
           then ''Error al exportar el modelo. Por favor, intenta de nuevo.''
           else error_message e],
       downloadBtn_disabled := False\<rparr>"

text \<open>
  \<^verbatim>\<open>downloadGLB\<close>. \<open>parse\<close> is the external serializer
  (\<^verbatim>\<open>GLTFExporter.parse\<close>), which answers a request through its success or its failure
  callback; \<open>upload\<close> is the name of the uploaded file, if any; \<open>now\<close> is the current
  time as an ISO string.
\<close>

definition downloadGLB ::
    "(ExportRequest \<Rightarrow> exporter_outcome) \<Rightarrow> string option \<Rightarrow> string \<Rightarrow> World \<Rightarrow> World" where
  "downloadGLB parse upload now w =
     (case currentMesh w of
        None \<Rightarrow> export_failed NoModelError w
      | Some cm \<Rightarrow>
          (case validateModelForExport w cm of
             Inl e \<Rightarrow> export_failed e w
           | Inr _ \<Rightarrow>
               (let w1 = w\<lparr>downloadBtn_disabled := True\<rparr>
                in case optimizeModelForExport cm w1 of
                     Inl e \<Rightarrow> export_failed e w1
                   | Inr (optimized, w2) \<Rightarrow>
                       (let originalFileName =
                              (case upload of None \<Rightarrow> ''image''
                               | Some n \<Rightarrow> if n = [] then ''image'' else n);
                            baseFileName = takeWhile (\<lambda>c. c \<noteq> CHR ''.'') originalFileName;
                            timestamp = map (\<lambda>c. if c = CHR '':'' \<or> c = CHR ''.''
                                                   then CHR ''-'' else c) now;
                            meshForExport = optimized\<lparr>mesh_position := Vector3 0 0 0,
                                                       rotation := Vector3 (- (pi / 2)) 0 0\<rparr>
                        in case export_metadata w2 meshForExport of
                             Inl e \<Rightarrow> export_failed e w2
                           | Inr md \<Rightarrow>
                               (let options =
                                      \<lparr>binary = True,
                                       includeCustomExtensions = True,
                                       embedImages = True,
                                       onlyVisible = True,
                                       maxTextureSize = 4096,
                                       forceIndices = True,
                                       truncateDrawRange = True,
                                       generatedBy = ''Papiweb 3D Converter'',
                                       originalImage = originalFileName,
                                       createdAt = timestamp,
                                       version = ''1.0'',
                                       metadata = md\<rparr>;
                                    request = \<lparr>export_mesh = meshForExport,
                                               export_options = options\<rparr>;
                                    w3 = w2\<lparr>exporter_calls := exporter_calls w2 @ [request]\<rparr>
                                in case parse request of
                                     SerializerFailed msg \<Rightarrow>
                                       export_failed (ExportSerializationError msg) w3
                                   | Serialized result \<Rightarrow>
                                       w3\<lparr>downloads := downloads w3 @
                                            [(baseFileName @ ''_3d_'' @ timestamp @ ''.glb'', result)],
                                          cleanup_timers := cleanup_timers w3 @ [meshForExport],
                                          downloadBtn_disabled := False\<rparr>)))))"

text \<open>
  The cleanup callback that a successful export schedules: dispose the export clone's
  geometry and material.
\<close>

definition export_cleanup :: "World \<Rightarrow> World" where
  "export_cleanup w =
     (case cleanup_timers w of
        [] \<Rightarrow> w
      | meshForExport # rest \<Rightarrow>
          w\<lparr>cleanup_timers := rest,
            events := events w @
              (case geometry meshForExport of None \<Rightarrow> [] | Some g \<Rightarrow> [Disposed (GeometryRes g)]) @
              (case material meshForExport of None \<Rightarrow> [] | Some m \<Rightarrow> [Disposed (MaterialRes m)])\<rparr>)"

section \<open>Replacing the current mesh\<close>

text \<open>
  \<^verbatim>\<open>scene.remove(currentMesh); currentMesh.geometry.dispose();
  currentMesh.material.dispose();\<close>, the three statements both rebuild paths run on the
  previous mesh. A mesh without a geometry or a material would stop the handler with a
  TypeError at that statement: \<open>Inl\<close> is the state reached there.
\<close>

definition releaseMesh :: "Mesh \<Rightarrow> World \<Rightarrow> World + World" where
  "releaseMesh mesh w =
     (let w1 = w\<lparr>scene := remove1 mesh (scene w)\<rparr>
      in case geometry mesh of
           None \<Rightarrow> Inl w1
         | Some g \<Rightarrow>
             (let w2 = w1\<lparr>events := events w1 @ [Disposed (GeometryRes g)]\<rparr>
              in case material mesh of
                   None \<Rightarrow> Inl w2
                 | Some m \<Rightarrow> Inr (w2\<lparr>events := events w2 @ [Disposed (MaterialRes m)]\<rparr>)))"

text \<open>
  The rest of both paths: build the new mesh, make it current and add it to the scene.
  If building throws, the handler ends where it is. Both handlers are asynchronous and
  suspend between the release and this part, at
  \<^verbatim>\<open>currentMesh = await createMeshFromDepthMap(...)\<close>, whose first statement awaits the
  tensor's values; the settings are read and \<^verbatim>\<open>currentMesh\<close> is assigned only after the
  suspension.
\<close>

definition installNewMesh :: "DepthTensor \<Rightarrow> HTMLImage \<Rightarrow> Settings \<Rightarrow> World \<Rightarrow> World" where
  "installNewMesh depthMapTensor imagePreview cfg w =
     (case createMeshFromDepthMap depthMapTensor imagePreview cfg w of
        Inl e \<Rightarrow> w
      | Inr (mesh, w1) \<Rightarrow> w1\<lparr>currentMesh := Some mesh, scene := scene w1 @ [mesh]\<rparr>)"

text \<open>
  The generate button's \<^verbatim>\<open>imagePreview.onload\<close> handler, run from start to end with
  no other handler running in between. \<open>estimated\<close> is what \<^verbatim>\<open>estimateDepth\<close>
  returns: \<open>None\<close> when the depth model is not loaded.
\<close>

definition onGenerate :: "DepthTensor option \<Rightarrow> HTMLImage \<Rightarrow> Settings \<Rightarrow> World \<Rightarrow> World" where
  "onGenerate estimated imagePreview cfg w =
     (case estimated of
        None \<Rightarrow> w
      | Some depthMapTensor \<Rightarrow>
          (case (case currentMesh w of None \<Rightarrow> Inr w | Some cm \<Rightarrow> releaseMesh cm w) of
             Inl stopped \<Rightarrow> stopped
           | Inr w1 \<Rightarrow> installNewMesh depthMapTensor imagePreview cfg w1))"

text \<open>
  \<^verbatim>\<open>updateMeshGeometry\<close>, run when a slider or a checkbox changes, from start to end
  with no other handler running in between; \<open>imageComplete\<close> is
  \<^verbatim>\<open>imagePreview.complete\<close>.
\<close>

definition updateMeshGeometry ::
    "bool \<Rightarrow> DepthTensor option \<Rightarrow> HTMLImage \<Rightarrow> Settings \<Rightarrow> World \<Rightarrow> World" where
  "updateMeshGeometry imageComplete estimated imagePreview cfg w =
     (case currentMesh w of
        None \<Rightarrow> w
      | Some cm \<Rightarrow>
          if \<not> imageComplete then w
          else (case estimated of
                  None \<Rightarrow> w
                | Some depthMapTensor \<Rightarrow>
                    (case releaseMesh cm w of
                       Inl stopped \<Rightarrow> stopped
                     | Inr w1 \<Rightarrow> installNewMesh depthMapTensor imagePreview cfg w1)))"

text \<open>
  The first part of \<^verbatim>\<open>updateMeshGeometry\<close>, up to its suspension at
  \<^verbatim>\<open>await createMeshFromDepthMap\<close>: \<open>Inl\<close> when the handler has ended (nothing to
  rebuild, or stopped by a TypeError), \<open>Inr\<close> when it is suspended with the previous
  mesh released and \<^verbatim>\<open>currentMesh\<close> still naming it. \<open>installNewMesh\<close> is the part
  after the suspension.
\<close>

definition updateMeshGeometry_begin :: "bool \<Rightarrow> DepthTensor option \<Rightarrow> World \<Rightarrow> World + World" where
  "updateMeshGeometry_begin imageComplete estimated w =
     (case currentMesh w of
        None \<Rightarrow> Inl w
      | Some cm \<Rightarrow>
          if \<not> imageComplete then Inl w
          else (case estimated of
                  None \<Rightarrow> Inl w
                | Some depthMapTensor \<Rightarrow> releaseMesh cm w))"

text \<open>
  Two slider events in a row, the second arriving while the first handler is suspended:
  the first handler's beginning, the second handler's beginning, then the first handler's
  end and the second handler's end. Nothing in the script keeps the second handler from
  starting.
\<close>

definition overlapping_updates ::
    "DepthTensor \<Rightarrow> DepthTensor \<Rightarrow> HTMLImage \<Rightarrow> Settings \<Rightarrow> World \<Rightarrow> World" where
  "overlapping_updates first second imagePreview cfg w =
     (case updateMeshGeometry_begin True (Some first) w of
        Inl ended \<Rightarrow> ended
      | Inr w1 \<Rightarrow>
          (case updateMeshGeometry_begin True (Some second) w1 of
             Inl ended \<Rightarrow> installNewMesh first imagePreview cfg ended
           | Inr w2 \<Rightarrow>
               installNewMesh second imagePreview cfg
                 (installNewMesh first imagePreview cfg w2)))"

text \<open>The state of the page before anything was generated.\<close>

definition initial_world :: World where
  "initial_world =
     \<lparr>geometries = (\<lambda>r. \<lparr>position = None, normal = None, uv = None, index = None,
                           boundingBox = None, boundingSphere = None\<rparr>),
      materials = (\<lambda>r. \<lparr>mat_map = None, normalMap = None, normalScale = (1, 1),
                          side = FrontSide\<rparr>),
      textures = (\<lambda>r. \<lparr>tex_image = None, needsUpdate = False\<rparr>),
      next_ref = 0,
      scene = [],
      currentMesh = None,
      events = [],
      alerts = [],
      downloads = [],
      downloadBtn_disabled = False,
      exporter_calls = [],
      cleanup_timers = []\<rparr>"

section \<open>Observations and sample inputs\<close>

text \<open>The geometry, and the vertex heights, of the surface the converter returns.\<close>

definition surface_geometry :: "depth_error + (Mesh \<times> World) \<Rightarrow> depth_error + BufferGeometry" where
  "surface_geometry r =
     (case r of Inl e \<Rightarrow> Inl e | Inr (mesh, w) \<Rightarrow> Inr (mesh_geometry w mesh))"

definition surface_heights :: "depth_error + (Mesh \<times> World) \<Rightarrow> depth_error + real list" where
  "surface_heights r =
     (case r of Inl e \<Rightarrow> Inl e | Inr (mesh, w) \<Rightarrow> Inr (heights (mesh_geometry w mesh)))"

text \<open>The vertex heights of the live surface, the current mesh.\<close>

definition current_heights :: "World \<Rightarrow> real list option" where
  "current_heights w =
     (case currentMesh w of None \<Rightarrow> None | Some mesh \<Rightarrow> Some (heights (mesh_geometry w mesh)))"

text \<open>\<^verbatim>\<open>mesh.material && mesh.material.map\<close>: the mesh has a texture bound.\<close>

definition has_texture :: "World \<Rightarrow> Mesh \<Rightarrow> bool" where
  "has_texture w mesh =
     (case material mesh of None \<Rightarrow> False | Some m \<Rightarrow> mat_map (materials w m) \<noteq> None)"

text \<open>A box moved by an offset (used to describe what a translation does to a bounding box).\<close>

fun translateBox :: "Box3 \<Rightarrow> Vector3 \<Rightarrow> Box3" where
  "translateBox EmptyBox off = EmptyBox"
| "translateBox (Box lo hi) off = Box (addVectors lo off) (addVectors hi off)"

text \<open>
  Sample depth fields: the 2 by 2 checker of the spec's scenario, a constant 2 by 2 field,
  and a single column of two values (width 1).
\<close>

definition checker_field :: DepthTensor where
  "checker_field = \<lparr>shape = (2, 2), array = [[0, 1], [1, 0]]\<rparr>"

definition flat_field :: DepthTensor where
  "flat_field = \<lparr>shape = (2, 2), array = [[0, 0], [0, 0]]\<rparr>"

definition column_field :: DepthTensor where
  "column_field = \<lparr>shape = (2, 1), array = [[0], [1]]\<rparr>"

definition photo :: HTMLImage where
  "photo = \<lparr>img_width = 640, img_height = 480\<rparr>"

text \<open>
  A state whose current mesh has a 2 by 2 plane as geometry and no material, as a test
  harness could set it up (the converter itself always binds a texture).
\<close>

definition bare_mesh :: Mesh where
  "bare_mesh = \<lparr>uuid = 1, geometry = Some 0, material = None,
                 mesh_position = Vector3 0 0 0, rotation = Vector3 0 0 0\<rparr>"

definition bare_world :: World where
  "bare_world = initial_world\<lparr>
       geometries := (geometries initial_world)(0 := PlaneGeometry 2 2 1 1),
       next_ref := 2,
       scene := [bare_mesh],
       currentMesh := Some bare_mesh\<rparr>"

text \<open>
  The state after the first click on the generate button, for the checker field with the
  depth slider at 100, the base slider at 0 and both checkboxes clear.
\<close>

definition plain_settings :: Settings where
  "plain_settings =
     \<lparr>depth_scale = 100, base_height = 0, use_normal_map = False, auto_center = False\<rparr>"

definition live_world :: World where
  "live_world = onGenerate (Some checker_field) photo plain_settings initial_world"



section \<open>Properties of the converter\<close>

subsection \<open>The grid and the displacement loop\<close>

lemma length_concat_const:
  "(\<And>x. x \<in> set xs \<Longrightarrow> length (f x) = k) \<Longrightarrow> length (concat (map f xs)) = length xs * k"
  by (induction xs) auto

lemma length_plane_vertices:
  "length (plane_vertices W H gx gy) = nat (gx + 1) * nat (gy + 1)"
  unfolding plane_vertices_def Let_def
  by (subst length_concat_const[where k="nat (gx + 1)"]) (auto simp: mult.commute)

lemma length_quad_indices: "length (quad_indices n iy ix) = 6"
  by (simp add: quad_indices_def Let_def)

lemma length_plane_indices:
  "length (plane_indices gx gy) = 6 * nat gx * nat gy"
  unfolding plane_indices_def
  by (subst length_concat_const[where k="6 * nat gx"])
     (auto simp: length_concat_const[where k=6] length_quad_indices)

lemma displace_inv:
  "displace dm w es bh i ps = Inr ps' \<Longrightarrow>
     length ps' = length ps \<and>
     (\<forall>j < length ps. i \<le> j \<longrightarrow>
        (\<exists>d. depth_at dm w j = Inr d \<and>
             ps' ! j = Vector3 (vx (ps ! j)) (vy (ps ! j)) ((1 - d) * es + bh * 20))) \<and>
     (\<forall>j < length ps. j < i \<longrightarrow> ps' ! j = ps ! j)"
proof (induction dm w es bh i ps rule: displace.induct)
  case (1 dm w es bh i ps)
  show ?case
  proof (cases "i < length ps")
    case False
    with "1.prems" show ?thesis by (simp add: displace.simps[of _ _ _ _ i ps])
  next
    case True
    then obtain d where d: "depth_at dm w i = Inr d"
      using "1.prems" by (cases "depth_at dm w i") (auto simp: displace.simps[of _ _ _ _ i ps])
    let ?z = "(1 - d) * es + bh * 20"
    let ?ps1 = "setZ i ?z ps"
    from "1.prems" True d have rec: "displace dm w es bh (Suc i) ?ps1 = Inr ps'"
      by (simp add: displace.simps[of _ _ _ _ i ps] Let_def)
    note IH = "1.IH"[OF True d refl rec]
    have len1: "length ?ps1 = length ps" by (simp add: setZ_def)
    have len: "length ps' = length ps" using IH len1 by simp
    have upper: "\<exists>d'. depth_at dm w j = Inr d' \<and>
             ps' ! j = Vector3 (vx (ps ! j)) (vy (ps ! j)) ((1 - d') * es + bh * 20)"
      if jl: "j < length ps" and ij: "i \<le> j" for j
    proof (cases "j = i")
      case True
      have "ps' ! i = ?ps1 ! i" using IH \<open>i < length ps\<close> len1 by simp
      then show ?thesis using True d \<open>i < length ps\<close> by (simp add: setZ_def)
    next
      case False
      then have "Suc i \<le> j" using ij by simp
      then obtain d' where "depth_at dm w j = Inr d'"
        "ps' ! j = Vector3 (vx (?ps1 ! j)) (vy (?ps1 ! j)) ((1 - d') * es + bh * 20)"
        using IH jl len1 by auto
      then show ?thesis using False by (simp add: setZ_def)
    qed
    have lower: "ps' ! j = ps ! j" if "j < length ps" "j < i" for j
    proof -
      have "ps' ! j = ?ps1 ! j" using IH that len1 by simp
      then show ?thesis using that by (simp add: setZ_def)
    qed
    show ?thesis using len upper lower by blast
  qed
qed

lemma displace_total:
  "(\<And>j. i \<le> j \<Longrightarrow> j < length ps \<Longrightarrow> \<exists>d. depth_at dm w j = Inr d) \<Longrightarrow>
     \<exists>ps'. displace dm w es bh i ps = Inr ps'"
proof (induction dm w es bh i ps rule: displace.induct)
  case (1 dm w es bh i ps)
  show ?case
  proof (cases "i < length ps")
    case False
    then show ?thesis by (simp add: displace.simps[of _ _ _ _ i ps])
  next
    case True
    then obtain d where d: "depth_at dm w i = Inr d" using "1.prems"[of i] by auto
    let ?ps1 = "setZ i ((1 - d) * es + bh * 20) ps"
    have "\<exists>ps'. displace dm w es bh (Suc i) ?ps1 = Inr ps'"
      by (rule "1.IH"[OF True d refl]) (use "1.prems" in \<open>simp add: setZ_def\<close>)
    then show ?thesis using True d by (simp add: displace.simps[of _ _ _ _ i ps] Let_def)
  qed
qed

lemma depth_at_ok:
  assumes "tensor_ok t" "i < snd (shape t) * fst (shape t)"
  shows "depth_at (array t) (snd (shape t)) i
           = Inr (array t ! (i div snd (shape t)) ! (i mod snd (shape t)))"
proof -
  let ?w = "snd (shape t)" and ?h = "fst (shape t)"
  have w: "0 < ?w" using assms(2) by (cases "?w = 0") auto
  have y: "i div ?w < ?h" using assms(2) w by (simp add: less_mult_imp_div_less mult.commute)
  have len: "length (array t) = ?h" using assms(1) by (simp add: tensor_ok_def)
  have "length (array t ! (i div ?w)) = ?w"
    using assms(1) y len by (simp add: tensor_ok_def list_all_length)
  then show ?thesis using w y len by (simp add: depth_at_def Let_def)
qed


lemma computeVertexNormals_position [simp]: "position (computeVertexNormals g) = position g"
  by (simp add: computeVertexNormals_def Let_def split: option.splits)

lemma computeVertexNormals_index [simp]: "index (computeVertexNormals g) = index g"
  by (simp add: computeVertexNormals_def Let_def split: option.splits)

lemma displacedGeometry_ok:
  assumes ok: "tensor_ok t" and sh: "shape t = (h, w)"
  shows "\<exists>g. displacedGeometry t cfg = Inr g \<and>
             index g = Some (plane_indices (int w - 1) (int h - 1)) \<and>
             length (heights g) = w * h \<and>
             (\<forall>i < w * h. heights g ! i =
                (1 - array t ! (i div w) ! (i mod w)) * (100 * (depth_scale cfg / 100))
                  + base_height cfg / 100 * 20)"
proof -
  let ?P = "PlaneGeometry (real w) (real h) (int w - 1) (int h - 1)"
  let ?ps = "getAttribute_position ?P"
  let ?es = "100 * (depth_scale cfg / 100)" and ?bh = "base_height cfg / 100"
  have len: "length ?ps = w * h"
    by (simp add: getAttribute_position_def PlaneGeometry_def length_plane_vertices)
  have dep: "depth_at (array t) w i = Inr (array t ! (i div w) ! (i mod w))" if "i < w * h" for i
    using depth_at_ok[OF ok, of i] that sh by simp
  obtain ps' where ps': "displace (array t) w ?es ?bh 0 ?ps = Inr ps'"
    using displace_total[of 0 ?ps "array t" w ?es ?bh] dep len by auto
  note inv = displace_inv[OF ps']
  let ?g = "computeVertexNormals (?P\<lparr>position := Some ps'\<rparr>)"
  have g: "displacedGeometry t cfg = Inr ?g"
    using ps' sh by (simp add: displacedGeometry_def Let_def)
  have hs: "heights ?g = map vz ps'"
    by (simp add: heights_def getAttribute_position_def)
  have "heights ?g ! i = (1 - array t ! (i div w) ! (i mod w)) * ?es + ?bh * 20"
    if "i < w * h" for i
    using inv dep[OF that] that len hs by auto
  moreover have "index ?g = Some (plane_indices (int w - 1) (int h - 1))"
    by (simp add: PlaneGeometry_def)
  moreover have "length (heights ?g) = w * h" using inv len hs by simp
  ultimately show ?thesis using g by blast
qed

lemma createMesh_result:
  assumes "displacedGeometry t cfg = Inr g"
  shows "\<exists>mesh w'. createMeshFromDepthMap t img cfg w = Inr (mesh, w') \<and>
            geometry mesh = Some (next_ref w) \<and>
            mesh_geometry w' mesh = (if auto_center cfg then center g else g)"
  using assms
  by (simp add: createMeshFromDepthMap_def Let_def new_geometry_def new_texture_def
       new_material_def new_uuid_def mesh_geometry_def update_geometry_def)

lemma createMesh_error:
  assumes "displacedGeometry t cfg = Inl e"
  shows "createMeshFromDepthMap t img cfg w = Inl e"
  using assms by (simp add: createMeshFromDepthMap_def)


subsection \<open>Centring and the index buffer\<close>


lemma expandByPoint_translate:
  "expandByPoint (translateBox b off) (addVectors p off) = translateBox (expandByPoint b p) off"
  by (cases b) (auto simp: addVectors_def min_def max_def)

lemma foldl_expand_translate:
  "foldl expandByPoint (translateBox b off) (map (\<lambda>p. addVectors p off) ps)
     = translateBox (foldl expandByPoint b ps) off"
  by (induction ps arbitrary: b) (simp_all add: expandByPoint_translate)

lemma setFromBufferAttribute_translate:
  "setFromBufferAttribute (map (\<lambda>p. addVectors p off) ps)
     = translateBox (setFromBufferAttribute ps) off"
  using foldl_expand_translate[of EmptyBox off ps] by (simp add: setFromBufferAttribute_def)

lemma getCenter_recentred:
  "getCenter (translateBox b (negate (getCenter b))) = Vector3 0 0 0"
  by (cases b) (auto simp: addVectors_def negate_def multiplyScalar_def)

lemma position_translate:
  "position (translate off g) = map_option (map (\<lambda>p. addVectors p off)) (position g)"
  by (simp add: translate_def Let_def computeBoundingBox_def computeBoundingSphere_def)

lemma position_center:
  "position (center g) =
     map_option (map (\<lambda>p. addVectors p (negate (bbox_center g)))) (position g)"
  by (simp add: center_def Let_def position_translate bbox_center_def computeBoundingBox_def)

lemma bbox_center_eq:
  "bbox_center g = getCenter (case position g of None \<Rightarrow> EmptyBox
                               | Some ps \<Rightarrow> setFromBufferAttribute ps)"
  by (simp add: bbox_center_def computeBoundingBox_def)

lemma bbox_center_center: "bbox_center (center g) = Vector3 0 0 0"
proof (cases "position g")
  case None
  then show ?thesis by (simp add: bbox_center_eq position_center)
next
  case (Some ps)
  then show ?thesis
    by (simp add: bbox_center_eq position_center setFromBufferAttribute_translate
          getCenter_recentred)
qed

lemma addVectors_zero: "addVectors p (negate (Vector3 0 0 0)) = p"
  by (cases p) (simp add: addVectors_def negate_def)

lemma position_center_center: "position (center (center g)) = position (center g)"
  by (simp add: position_center[of "center g"] bbox_center_center addVectors_zero
        option.map_ident)

lemma heights_center:
  "heights (center g) = map (\<lambda>z. z - vz (bbox_center g)) (heights g)"
  by (cases "position g")
     (simp_all add: heights_def getAttribute_position_def position_center addVectors_def
        negate_def)

lemma position_count_center: "position_count (center g) = position_count g"
  by (cases "position g") (simp_all add: position_count_def position_center)

lemma index_translate: "index (translate off g) = index g"
  by (simp add: translate_def Let_def computeBoundingBox_def computeBoundingSphere_def)

lemma index_center: "index (center g) = index g"
  by (simp add: center_def Let_def index_translate computeBoundingBox_def)

lemma concat_nth_const:
  "(\<And>x. x \<in> set xs \<Longrightarrow> length (f x) = k) \<Longrightarrow> i < length xs \<Longrightarrow> j < k \<Longrightarrow>
     concat (map f xs) ! (i * k + j) = f (xs ! i) ! j"
proof (induction xs arbitrary: i)
  case Nil
  then show ?case by simp
next
  case (Cons a xs)
  show ?case
  proof (cases i)
    case 0
    then show ?thesis using Cons.prems by (simp add: nth_append)
  next
    case (Suc i')
    have "concat (map f xs) ! (i' * k + j) = f (xs ! i') ! j"
      using Cons.IH[of i'] Cons.prems Suc by simp
    then show ?thesis using Cons.prems Suc by (simp add: nth_append)
  qed
qed

lemma plane_indices_nth:
  assumes "iy < gy" "ix < gx" "j < 6"
  shows "plane_indices (int gx) (int gy) ! ((iy * gx + ix) * 6 + j)
           = quad_indices (Suc gx) iy ix ! j"
proof -
  let ?row = "\<lambda>iy. concat (map (\<lambda>ix. quad_indices (Suc gx) iy ix) [0..<gx])"
  have rowlen: "length (?row y) = gx * 6" for y
    using length_concat_const[of "[0..<gx]" "\<lambda>ix. quad_indices (Suc gx) y ix" 6]
    by (simp add: length_quad_indices)
  have inner: "?row iy ! (ix * 6 + j) = quad_indices (Suc gx) iy ix ! j"
    using concat_nth_const[of "[0..<gx]" "\<lambda>ix. quad_indices (Suc gx) iy ix" 6 ix j] assms
    by (simp add: length_quad_indices)
  have lt: "ix * 6 + j < gx * 6" using assms by simp
  have outer: "concat (map ?row [0..<gy]) ! (iy * (gx * 6) + (ix * 6 + j)) = ?row ([0..<gy] ! iy) ! (ix * 6 + j)"
    by (rule concat_nth_const) (use assms rowlen lt in auto)
  have idx: "(iy * gx + ix) * 6 + j = iy * (gx * 6) + (ix * 6 + j)"
    by (simp add: algebra_simps)
  have pl: "plane_indices (int gx) (int gy) = concat (map ?row [0..<gy])"
    by (simp add: plane_indices_def nat_add_distrib)
  have "plane_indices (int gx) (int gy) ! ((iy * gx + ix) * 6 + j) = ?row iy ! (ix * 6 + j)"
    unfolding pl idx using outer assms by simp
  then show ?thesis using inner by simp
qed


subsection \<open>The sample fields, evaluated\<close>

lemma checker_ok: "tensor_ok checker_field"
  by (simp add: tensor_ok_def checker_field_def)

lemma displace_unfold:
  "displace depthMap width extrusionScale baseHeight i ps =
     (if i < length ps then
        (case depth_at depthMap width i of
           Inl e \<Rightarrow> Inl e
         | Inr depth \<Rightarrow>
             displace depthMap width extrusionScale baseHeight (i + 1)
               (setZ i ((1 - depth) * extrusionScale + (baseHeight * 20)) ps))
      else Inr ps)"
  by (subst displace.simps) (simp add: Let_def split: sum.split)

lemma upt_0_2: "[0..<2] = [0, 1::nat]"
  by (simp add: numeral_2_eq_2)

lemma plane_2x2:
  "plane_vertices 2 2 1 1 = [Vector3 (- 1) 1 0, Vector3 1 1 0, Vector3 (- 1) (- 1) 0, Vector3 1 (- 1) 0]"
  by (simp add: plane_vertices_def upt_0_2)

lemma checker_displaced:
  "displacedGeometry checker_field \<lparr>depth_scale = 100, base_height = 0, use_normal_map = n, auto_center = c\<rparr>
     = Inr (computeVertexNormals (PlaneGeometry 2 2 1 1
         \<lparr>position := Some [Vector3 (- 1) 1 100, Vector3 1 1 0, Vector3 (- 1) (- 1) 0, Vector3 1 (- 1) 100]\<rparr>))"
  by (simp add: displacedGeometry_def checker_field_def Let_def getAttribute_position_def
       PlaneGeometry_def plane_2x2 displace_unfold depth_at_def setZ_def)


lemma surface_geometry_create:
  assumes "displacedGeometry t cfg = Inr g"
  shows "surface_geometry (createMeshFromDepthMap t img cfg w)
           = Inr (if auto_center cfg then center g else g)"
  using createMesh_result[OF assms, of img w] by (auto simp: surface_geometry_def)

lemma surface_heights_create:
  assumes "displacedGeometry t cfg = Inr g"
  shows "surface_heights (createMeshFromDepthMap t img cfg w)
           = Inr (heights (if auto_center cfg then center g else g))"
  using createMesh_result[OF assms, of img w] by (auto simp: surface_heights_def)

lemma flat_displaced:
  "displacedGeometry flat_field \<lparr>depth_scale = 100, base_height = 0, use_normal_map = n, auto_center = c\<rparr>
     = Inr (computeVertexNormals (PlaneGeometry 2 2 1 1
         \<lparr>position := Some [Vector3 (- 1) 1 100, Vector3 1 1 100, Vector3 (- 1) (- 1) 100, Vector3 1 (- 1) 100]\<rparr>))"
  by (simp add: displacedGeometry_def flat_field_def Let_def getAttribute_position_def
       PlaneGeometry_def plane_2x2 displace_unfold depth_at_def setZ_def)


lemma position_count_heights: "position_count g = length (heights g)"
  by (simp add: position_count_def heights_def getAttribute_position_def split: option.splits)

lemma take_drop_eqI:
  assumes "k + length ys \<le> length xs" and "\<And>j. j < length ys \<Longrightarrow> xs ! (k + j) = ys ! j"
  shows "take (length ys) (drop k xs) = ys"
  using assms by (intro nth_equalityI) auto

lemma plane_indices_empty:
  assumes "w < 2 \<or> h < 2"
  shows "plane_indices (int w - 1) (int h - 1) = []"
  using assms by (auto simp: plane_indices_def)

lemma surface_create_ok:
  assumes "tensor_ok t" and "shape t = (h, w)"
  shows "\<exists>g. surface_geometry (createMeshFromDepthMap t img cfg s) = Inr g \<and>
             position_count g = w * h \<and>
             index g = Some (plane_indices (int w - 1) (int h - 1))"
proof -
  obtain g0 where g0: "displacedGeometry t cfg = Inr g0"
    and ix: "index g0 = Some (plane_indices (int w - 1) (int h - 1))"
    and len: "length (heights g0) = w * h"
    using displacedGeometry_ok[OF assms, of cfg] by blast
  let ?g = "if auto_center cfg then center g0 else g0"
  have "position_count ?g = w * h"
    using len position_count_center[of g0] by (simp add: position_count_heights)
  moreover have "index ?g = Some (plane_indices (int w - 1) (int h - 1))"
    using ix by (simp add: index_center)
  ultimately show ?thesis using surface_geometry_create[OF g0, of img s] by auto
qed

lemma heights_eq_2:
  "length xs = 2 \<Longrightarrow> xs ! 0 = a \<Longrightarrow> xs ! 1 = b \<Longrightarrow> xs = [a, b]"
  by (cases xs; cases "tl xs") auto


section \<open>Properties of the export and of the rebuild paths\<close>

lemma position_computeBoundingBox [simp]: "position (computeBoundingBox g) = position g"
  by (simp add: computeBoundingBox_def)

lemma position_computeBoundingSphere [simp]: "position (computeBoundingSphere g) = position g"
  by (simp add: computeBoundingSphere_def)

lemma index_computeBoundingBox [simp]: "index (computeBoundingBox g) = index g"
  by (simp add: computeBoundingBox_def)

lemma index_computeBoundingSphere [simp]: "index (computeBoundingSphere g) = index g"
  by (simp add: computeBoundingSphere_def)

lemma createMesh_world:
  assumes "displacedGeometry t cfg = Inr g0"
  shows "createMeshFromDepthMap t img cfg w =
     Inr (\<lparr>uuid = next_ref w + 3, geometry = Some (next_ref w),
           material = Some (next_ref w + 2), mesh_position = Vector3 0 0 0,
           rotation = Vector3 (- (pi / 2)) 0 0\<rparr>,
          w\<lparr>geometries := (geometries w)
                (next_ref w := if auto_center cfg then center g0 else g0),
            textures := (textures w)
                (next_ref w + 1 := \<lparr>tex_image = Some img, needsUpdate = True\<rparr>),
            materials := (materials w)
                (next_ref w + 2 :=
                   \<lparr>mat_map = Some (next_ref w + 1),
                    normalMap = (if use_normal_map cfg then Some (next_ref w + 1) else None),
                    normalScale = (if use_normal_map cfg then (1 / 2, 1 / 2) else (1, 1)),
                    side = DoubleSide\<rparr>),
            next_ref := next_ref w + 4,
            events := events w @ [Created (GeometryRes (next_ref w)),
                                  Created (TextureRes (next_ref w + 1)),
                                  Created (MaterialRes (next_ref w + 2))]\<rparr>)"
  using assms
  by (simp add: createMeshFromDepthMap_def Let_def new_geometry_def new_texture_def
       new_material_def new_uuid_def update_geometry_def)

lemma optimize_world:
  assumes "geometry mesh = Some g"
  shows "optimizeModelForExport mesh w =
     Inr (mesh\<lparr>uuid := next_ref w\<rparr>,
          w\<lparr>next_ref := Suc (next_ref w),
            geometries := (geometries w)
              (g := computeBoundingSphere (computeBoundingBox
                      (computeVertexNormals (center (geometries w g)))))\<rparr>)"
  using assms
  by (simp add: optimizeModelForExport_def clone_def new_uuid_def Let_def update_geometry_def)

lemma validate_ok_iff:
  "validateModelForExport w mesh = Inr b \<longleftrightarrow>
     b \<and> (\<exists>g ps m t. geometry mesh = Some g \<and> position (geometries w g) = Some ps \<and> ps \<noteq> [] \<and>
                 material mesh = Some m \<and> mat_map (materials w m) = Some t)"
  by (auto simp: validateModelForExport_def position_count_def split: option.splits)

text \<open>What a run of the export does once validation has passed.\<close>

lemma metadata_optimized:
  assumes g: "geometry mesh = Some g" and ps: "position (geometries w g) = Some ps"
    and m: "material mesh = Some m" and t: "mat_map (materials w m) = Some t"
    and w2: "geometries w2 g = computeBoundingSphere (computeBoundingBox
                      (computeVertexNormals (center (geometries w g))))"
    and mats: "materials w2 = materials w"
    and g2: "geometry mesh2 = Some g" and m2: "material mesh2 = Some m"
  shows "\<exists>md. export_metadata w2 mesh2 = Inr md \<and> vertices md = length ps \<and>
           faces md = (case index (geometries w g) of Some ix \<Rightarrow> real (length ix) / 3
                       | None \<Rightarrow> 0)"
proof -
  have "position (geometries w2 g) = Some (map (\<lambda>p. addVectors p (negate (bbox_center (geometries w g)))) ps)"
    using ps by (simp add: w2 position_center)
  moreover have "index (geometries w2 g) = index (geometries w g)"
    by (simp add: w2 index_center)
  ultimately show ?thesis
    using g2 m2 t mats by (simp add: export_metadata_def)
qed

lemma download_valid:
  assumes cm: "currentMesh w = Some mesh"
    and g: "geometry mesh = Some g" and ps: "position (geometries w g) = Some ps" and ne: "ps \<noteq> []"
    and m: "material mesh = Some m" and t: "mat_map (materials w m) = Some t"
  shows "\<exists>req w3.
     w3 = w\<lparr>downloadBtn_disabled := True,
            next_ref := Suc (next_ref w),
            geometries := (geometries w)
              (g := computeBoundingSphere (computeBoundingBox
                      (computeVertexNormals (center (geometries w g))))),
            exporter_calls := exporter_calls w @ [req]\<rparr> \<and>
     export_mesh req = mesh\<lparr>uuid := next_ref w, mesh_position := Vector3 0 0 0,
                             rotation := Vector3 (- (pi / 2)) 0 0\<rparr> \<and>
     vertices (metadata (export_options req)) = length ps \<and>
     faces (metadata (export_options req)) =
        (case index (geometries w g) of Some ix \<Rightarrow> real (length ix) / 3 | None \<Rightarrow> 0) \<and>
     downloadGLB parse upload now w =
       (case parse req of
          SerializerFailed msg \<Rightarrow> export_failed (ExportSerializationError msg) w3
        | Serialized result \<Rightarrow>
            w3\<lparr>downloads := downloads w3 @
                 [(takeWhile (\<lambda>c. c \<noteq> CHR ''.'')
                     (case upload of None \<Rightarrow> ''image''
                      | Some n \<Rightarrow> if n = [] then ''image'' else n)
                   @ ''_3d_'' @ map (\<lambda>c. if c = CHR '':'' \<or> c = CHR ''.''
                                           then CHR ''-'' else c) now @ ''.glb'', result)],
               cleanup_timers := cleanup_timers w3 @ [export_mesh req],
               downloadBtn_disabled := False\<rparr>)"
proof -
  let ?w1 = "w\<lparr>downloadBtn_disabled := True\<rparr>"
  let ?w2 = "?w1\<lparr>next_ref := Suc (next_ref ?w1),
            geometries := (geometries ?w1)
              (g := computeBoundingSphere (computeBoundingBox
                      (computeVertexNormals (center (geometries ?w1 g)))))\<rparr>"
  let ?mesh2 = "mesh\<lparr>uuid := next_ref w, mesh_position := Vector3 0 0 0,
                             rotation := Vector3 (- (pi / 2)) 0 0\<rparr>"
  have v: "validateModelForExport w mesh = Inr True"
    using g ps ne m t by (simp add: validate_ok_iff)
  have opt: "optimizeModelForExport mesh ?w1 = Inr (mesh\<lparr>uuid := next_ref w\<rparr>, ?w2)"
    using optimize_world[OF g, of ?w1] by simp
  obtain md where md: "export_metadata ?w2 ?mesh2 = Inr md"
    and vs: "vertices md = length ps"
    and fs: "faces md = (case index (geometries w g) of Some ix \<Rightarrow> real (length ix) / 3
                         | None \<Rightarrow> 0)"
    using metadata_optimized[OF g ps m t, of ?w2 ?mesh2] g m by auto
  let ?orig = "case upload of None \<Rightarrow> ''image'' | Some n \<Rightarrow> if n = [] then ''image'' else n"
  let ?ts = "map (\<lambda>c. if c = CHR '':'' \<or> c = CHR ''.'' then CHR ''-'' else c) now"
  let ?req = "\<lparr>export_mesh = ?mesh2,
               export_options = \<lparr>binary = True, includeCustomExtensions = True,
                 embedImages = True, onlyVisible = True, maxTextureSize = 4096,
                 forceIndices = True, truncateDrawRange = True,
                 generatedBy = ''Papiweb 3D Converter'', originalImage = ?orig,
                 createdAt = ?ts, version = ''1.0'', metadata = md\<rparr>\<rparr>"
  let ?w3 = "?w2\<lparr>exporter_calls := exporter_calls ?w2 @ [?req]\<rparr>"
  have run: "downloadGLB parse upload now w =
       (case parse ?req of
          SerializerFailed msg \<Rightarrow> export_failed (ExportSerializationError msg) ?w3
        | Serialized result \<Rightarrow>
            ?w3\<lparr>downloads := downloads ?w3 @
                 [(takeWhile (\<lambda>c. c \<noteq> CHR ''.'') ?orig @ ''_3d_'' @ ?ts @ ''.glb'', result)],
               cleanup_timers := cleanup_timers ?w3 @ [?mesh2],
               downloadBtn_disabled := False\<rparr>)"
    unfolding downloadGLB_def
    by (simp only: cm v opt md option.case sum.case prod.case Let_def simp_thms)
  have w3: "?w3 = w\<lparr>downloadBtn_disabled := True,
            next_ref := Suc (next_ref w),
            geometries := (geometries w)
              (g := computeBoundingSphere (computeBoundingBox
                      (computeVertexNormals (center (geometries w g))))),
            exporter_calls := exporter_calls w @ [?req]\<rparr>"
    by simp
  have sel: "export_mesh ?req = ?mesh2" "metadata (export_options ?req) = md"
    by simp_all
  show ?thesis
    apply (rule exI[of _ ?req], rule exI[of _ ?w3])
    apply (intro conjI)
        apply (rule w3)
       apply (rule sel(1))
      apply (simp only: sel(2) vs)
     apply (simp only: sel(2) fs)
    apply (simp only: run sel(1))
    done
qed


text \<open>The state after the first generation, written out.\<close>

lemma initial_world_sel:
  "next_ref initial_world = 0" "currentMesh initial_world = None" "scene initial_world = []"
  "events initial_world = []" "alerts initial_world = []" "downloads initial_world = []"
  "exporter_calls initial_world = []" "cleanup_timers initial_world = []"
  by (simp_all add: initial_world_def)

lemma live_world_eq:
  "live_world =
     initial_world\<lparr>
        geometries := (geometries initial_world)
          (0 := computeVertexNormals (PlaneGeometry 2 2 1 1
                  \<lparr>position := Some [Vector3 (- 1) 1 100, Vector3 1 1 0,
                                     Vector3 (- 1) (- 1) 0, Vector3 1 (- 1) 100]\<rparr>)),
        textures := (textures initial_world)
          (1 := \<lparr>tex_image = Some photo, needsUpdate = True\<rparr>),
        materials := (materials initial_world)
          (2 := \<lparr>mat_map = Some 1, normalMap = None, normalScale = (1, 1),
                  side = DoubleSide\<rparr>),
        next_ref := 4,
        events := [Created (GeometryRes 0), Created (TextureRes 1), Created (MaterialRes 2)],
        currentMesh := Some \<lparr>uuid = 3, geometry = Some 0, material = Some 2,
                             mesh_position = Vector3 0 0 0,
                             rotation = Vector3 (- (pi / 2)) 0 0\<rparr>,
        scene := [\<lparr>uuid = 3, geometry = Some 0, material = Some 2,
                   mesh_position = Vector3 0 0 0,
                   rotation = Vector3 (- (pi / 2)) 0 0\<rparr>]\<rparr>"
proof -
  have d: "displacedGeometry checker_field plain_settings =
      Inr (computeVertexNormals (PlaneGeometry 2 2 1 1
                  \<lparr>position := Some [Vector3 (- 1) 1 100, Vector3 1 1 0,
                                     Vector3 (- 1) (- 1) 0, Vector3 1 (- 1) 100]\<rparr>))"
    unfolding plain_settings_def by (rule checker_displaced)
  have cfg: "auto_center plain_settings = False" "use_normal_map plain_settings = False"
    by (simp_all add: plain_settings_def)
  show ?thesis
    unfolding live_world_def onGenerate_def installNewMesh_def
    by (simp add: createMesh_world[OF d] initial_world_sel cfg numeral_2_eq_2)
qed

lemma live_world_sel:
  "currentMesh live_world = Some \<lparr>uuid = 3, geometry = Some 0, material = Some 2,
                             mesh_position = Vector3 0 0 0,
                             rotation = Vector3 (- (pi / 2)) 0 0\<rparr>"
  "geometries live_world 0 = computeVertexNormals (PlaneGeometry 2 2 1 1
                  \<lparr>position := Some [Vector3 (- 1) 1 100, Vector3 1 1 0,
                                     Vector3 (- 1) (- 1) 0, Vector3 1 (- 1) 100]\<rparr>)"
  "materials live_world 2 = \<lparr>mat_map = Some 1, normalMap = None, normalScale = (1, 1),
                  side = DoubleSide\<rparr>"
  "exporter_calls live_world = []" "alerts live_world = []" "downloads live_world = []"
  "events live_world = [Created (GeometryRes 0), Created (TextureRes 1), Created (MaterialRes 2)]"
  "next_ref live_world = 4"
  "scene live_world = [\<lparr>uuid = 3, geometry = Some 0, material = Some 2,
                   mesh_position = Vector3 0 0 0,
                   rotation = Vector3 (- (pi / 2)) 0 0\<rparr>]"
  by (simp_all add: live_world_eq initial_world_sel)


lemma heights_optimized:
  "heights (computeBoundingSphere (computeBoundingBox (computeVertexNormals (center g))))
     = heights (center g)"
  by (simp add: heights_def getAttribute_position_def)

text \<open>
  Whatever the serializer answers, an export that passes validation leaves the current
  mesh in place and replaces its geometry by the centred one.
\<close>

lemma download_effect:
  assumes cm: "currentMesh w = Some mesh"
    and g: "geometry mesh = Some g" and ps: "position (geometries w g) = Some ps" and ne: "ps \<noteq> []"
    and m: "material mesh = Some m" and t: "mat_map (materials w m) = Some t"
  shows "currentMesh (downloadGLB parse upload now w) = Some mesh \<and>
         scene (downloadGLB parse upload now w) = scene w \<and>
         events (downloadGLB parse upload now w) = events w \<and>
         materials (downloadGLB parse upload now w) = materials w \<and>
         textures (downloadGLB parse upload now w) = textures w \<and>
         geometries (downloadGLB parse upload now w) =
           (geometries w)(g := computeBoundingSphere (computeBoundingBox
                      (computeVertexNormals (center (geometries w g)))))"
proof -
  obtain req w3 where
    w3: "w3 = w\<lparr>downloadBtn_disabled := True,
            next_ref := Suc (next_ref w),
            geometries := (geometries w)
              (g := computeBoundingSphere (computeBoundingBox
                      (computeVertexNormals (center (geometries w g))))),
            exporter_calls := exporter_calls w @ [req]\<rparr>"
    and run: "downloadGLB parse upload now w =
       (case parse req of
          SerializerFailed msg \<Rightarrow> export_failed (ExportSerializationError msg) w3
        | Serialized result \<Rightarrow>
            w3\<lparr>downloads := downloads w3 @
                 [(takeWhile (\<lambda>c. c \<noteq> CHR ''.'')
                     (case upload of None \<Rightarrow> ''image''
                      | Some n \<Rightarrow> if n = [] then ''image'' else n)
                   @ ''_3d_'' @ map (\<lambda>c. if c = CHR '':'' \<or> c = CHR ''.''
                                           then CHR ''-'' else c) now @ ''.glb'', result)],
               cleanup_timers := cleanup_timers w3 @ [export_mesh req],
               downloadBtn_disabled := False\<rparr>)"
    using download_valid[OF assms, of parse upload now] by blast
  show ?thesis
    unfolding run using cm by (cases "parse req") (simp_all add: w3 export_failed_def)
qed

text \<open>
  In particular the export lowers every height of the live surface by the z coordinate of
  its bounding-box centre, which is not zero unless the surface was centred already.
\<close>

lemma export_shifts_live_heights:
  assumes cm: "currentMesh w = Some mesh"
    and g: "geometry mesh = Some g" and ps: "position (geometries w g) = Some ps" and ne: "ps \<noteq> []"
    and m: "material mesh = Some m" and t: "mat_map (materials w m) = Some t"
  shows "current_heights (downloadGLB parse upload now w) =
           Some (map (\<lambda>z. z - vz (bbox_center (geometries w g))) (heights (geometries w g)))"
  using download_effect[OF assms, of parse upload now] g
  by (simp add: current_heights_def mesh_geometry_def heights_optimized heights_center)

lemma download_failure:
  assumes cm: "currentMesh w = Some mesh"
    and g: "geometry mesh = Some g" and ps: "position (geometries w g) = Some ps" and ne: "ps \<noteq> []"
    and m: "material mesh = Some m" and t: "mat_map (materials w m) = Some t"
    and "msg \<noteq> []"
  shows "alerts (downloadGLB (\<lambda>req. SerializerFailed msg) upload now w) = alerts w @ [msg] \<and>
         downloads (downloadGLB (\<lambda>req. SerializerFailed msg) upload now w) = downloads w"
proof -
  obtain req w3 where
    w3: "w3 = w\<lparr>downloadBtn_disabled := True,
            next_ref := Suc (next_ref w),
            geometries := (geometries w)
              (g := computeBoundingSphere (computeBoundingBox
                      (computeVertexNormals (center (geometries w g))))),
            exporter_calls := exporter_calls w @ [req]\<rparr>"
    and run: "downloadGLB (\<lambda>req. SerializerFailed msg) upload now w =
       (case (\<lambda>req. SerializerFailed msg) req of
          SerializerFailed msg \<Rightarrow> export_failed (ExportSerializationError msg) w3
        | Serialized result \<Rightarrow>
            w3\<lparr>downloads := downloads w3 @
                 [(takeWhile (\<lambda>c. c \<noteq> CHR ''.'')
                     (case upload of None \<Rightarrow> ''image''
                      | Some n \<Rightarrow> if n = [] then ''image'' else n)
                   @ ''_3d_'' @ map (\<lambda>c. if c = CHR '':'' \<or> c = CHR ''.''
                                           then CHR ''-'' else c) now @ ''.glb'', result)],
               cleanup_timers := cleanup_timers w3 @ [export_mesh req],
               downloadBtn_disabled := False\<rparr>)"
    using download_valid[OF assms(1-6), of "\<lambda>req. SerializerFailed msg" upload now] by blast
  show ?thesis
    unfolding run using assms(7) by (simp add: w3 export_failed_def error_message_def)
qed

lemma live_heights: "current_heights live_world = Some [100, 0, 0, 100]"
  by (simp add: current_heights_def mesh_geometry_def live_world_sel heights_def
        getAttribute_position_def)

lemma live_centred_heights:
  "heights (center (geometries live_world 0)) = [50, - 50, - 50, 50]"
  by (simp add: heights_center live_world_sel)
     (simp add: heights_def getAttribute_position_def bbox_center_eq
        setFromBufferAttribute_def addVectors_def multiplyScalar_def)

text \<open>Replacing the current mesh.\<close>

lemma releaseMesh_ok:
  assumes "geometry old = Some g" and "material old = Some m"
  shows "releaseMesh old w =
           Inr (w\<lparr>scene := remove1 old (scene w),
                  events := events w @ [Disposed (GeometryRes g), Disposed (MaterialRes m)]\<rparr>)"
  using assms by (simp add: releaseMesh_def Let_def)

lemma replace_current:
  assumes cm: "currentMesh w = Some old" and g: "geometry old = Some g"
    and m: "material old = Some m" and d: "displacedGeometry t cfg = Inr g0"
  shows "onGenerate (Some t) img cfg w =
     w\<lparr>geometries := (geometries w)
            (next_ref w := if auto_center cfg then center g0 else g0),
        textures := (textures w)
            (next_ref w + 1 := \<lparr>tex_image = Some img, needsUpdate = True\<rparr>),
        materials := (materials w)
            (next_ref w + 2 :=
               \<lparr>mat_map = Some (next_ref w + 1),
                normalMap = (if use_normal_map cfg then Some (next_ref w + 1) else None),
                normalScale = (if use_normal_map cfg then (1 / 2, 1 / 2) else (1, 1)),
                side = DoubleSide\<rparr>),
        next_ref := next_ref w + 4,
        events := events w @ [Disposed (GeometryRes g), Disposed (MaterialRes m),
                              Created (GeometryRes (next_ref w)),
                              Created (TextureRes (next_ref w + 1)),
                              Created (MaterialRes (next_ref w + 2))],
        currentMesh := Some \<lparr>uuid = next_ref w + 3, geometry = Some (next_ref w),
                       material = Some (next_ref w + 2), mesh_position = Vector3 0 0 0,
                       rotation = Vector3 (- (pi / 2)) 0 0\<rparr>,
        scene := remove1 old (scene w) @
                   [\<lparr>uuid = next_ref w + 3, geometry = Some (next_ref w),
                     material = Some (next_ref w + 2), mesh_position = Vector3 0 0 0,
                     rotation = Vector3 (- (pi / 2)) 0 0\<rparr>]\<rparr>"
  unfolding onGenerate_def installNewMesh_def
  by (simp add: cm releaseMesh_ok[OF g m] createMesh_world[OF d])

lemma update_eq_generate:
  assumes "currentMesh w = Some old"
  shows "updateMeshGeometry True (Some t) img cfg w = onGenerate (Some t) img cfg w"
  using assms by (simp add: updateMeshGeometry_def onGenerate_def)

text \<open>
  The two parts of the rebuild handler, run back to back, are the handler; and what the
  second part does to the state it finds.
\<close>

lemma updateMeshGeometry_split:
  "updateMeshGeometry imageComplete (Some t) img cfg w =
     (case updateMeshGeometry_begin imageComplete (Some t) w of
        Inl ended \<Rightarrow> ended
      | Inr w1 \<Rightarrow> installNewMesh t img cfg w1)"
  by (simp add: updateMeshGeometry_def updateMeshGeometry_begin_def split: option.splits)

lemma installNewMesh_world:
  assumes d: "displacedGeometry t cfg = Inr g0"
  shows "installNewMesh t img cfg w =
     w\<lparr>geometries := (geometries w)
            (next_ref w := if auto_center cfg then center g0 else g0),
        textures := (textures w)
            (next_ref w + 1 := \<lparr>tex_image = Some img, needsUpdate = True\<rparr>),
        materials := (materials w)
            (next_ref w + 2 :=
               \<lparr>mat_map = Some (next_ref w + 1),
                normalMap = (if use_normal_map cfg then Some (next_ref w + 1) else None),
                normalScale = (if use_normal_map cfg then (1 / 2, 1 / 2) else (1, 1)),
                side = DoubleSide\<rparr>),
        next_ref := next_ref w + 4,
        events := events w @ [Created (GeometryRes (next_ref w)),
                              Created (TextureRes (next_ref w + 1)),
                              Created (MaterialRes (next_ref w + 2))],
        currentMesh := Some \<lparr>uuid = next_ref w + 3, geometry = Some (next_ref w),
                       material = Some (next_ref w + 2), mesh_position = Vector3 0 0 0,
                       rotation = Vector3 (- (pi / 2)) 0 0\<rparr>,
        scene := scene w @
                   [\<lparr>uuid = next_ref w + 3, geometry = Some (next_ref w),
                     material = Some (next_ref w + 2), mesh_position = Vector3 0 0 0,
                     rotation = Vector3 (- (pi / 2)) 0 0\<rparr>]\<rparr>"
  unfolding installNewMesh_def by (simp add: createMesh_world[OF d])


section \<open>The claims\<close>

text \<open>
  C1 (amended). For every depth field whose rows agree with its shape and every parameter
  pair, with \<open>depthScale\<close> and \<open>baseHeight\<close> the two sliders' values divided by 100: the
  displacement loop sets the height of the vertex at row \<open>y\<close>, column \<open>x\<close> (flattened
  index \<open>y * width + x\<close>) to \<open>(1 - depth[y][x]) * (100 * depthScale) + baseHeight * 20\<close>.
  The surface the converter returns has these heights when \<open>autoCenter\<close> is off. When
  \<open>autoCenter\<close> is on and the field has width and height at least 2, every height is
  lowered by the z coordinate of the bounding-box centre of the displaced grid. (Nothing
  is said of a field of width or height 1 with \<open>autoCenter\<close> on, where the library
  computes with NaN coordinates.) For a constant depth field of value \<open>d\<close> and
  \<open>autoCenter\<close> off, every vertex height of the returned surface is
  \<open>(1 - d) * 100 * depthScale + baseHeight * 20\<close>. All values are those of exact real
  arithmetic; the position buffer stores each of them rounded to 32-bit floating point.
\<close>

theorem C1_height_law:
  assumes "tensor_ok t" and "shape t = (h, w)"
    and "depthScale = depth_scale cfg / 100" and "baseHeight = base_height cfg / 100"
  shows "\<exists>g g'. displacedGeometry t cfg = Inr g \<and>
           surface_geometry (createMeshFromDepthMap t img cfg s) = Inr g' \<and>
           (\<forall>y<h. \<forall>x<w.
              heights g ! (y * w + x)
                = (1 - array t ! y ! x) * (100 * depthScale) + baseHeight * 20 \<and>
              (\<not> auto_center cfg \<longrightarrow>
                 heights g' ! (y * w + x)
                   = (1 - array t ! y ! x) * (100 * depthScale) + baseHeight * 20) \<and>
              (auto_center cfg \<and> 2 \<le> w \<and> 2 \<le> h \<longrightarrow>
                 heights g' ! (y * w + x)
                   = (1 - array t ! y ! x) * (100 * depthScale) + baseHeight * 20
                     - vz (bbox_center g))) \<and>
           (\<forall>d. (\<forall>y<h. \<forall>x<w. array t ! y ! x = d) \<longrightarrow> \<not> auto_center cfg \<longrightarrow>
              (\<forall>i<w * h. heights g' ! i = (1 - d) * 100 * depthScale + baseHeight * 20))"
proof -
  obtain g where g: "displacedGeometry t cfg = Inr g"
    and len: "length (heights g) = w * h"
    and hs: "\<And>i. i < w * h \<Longrightarrow> heights g ! i =
                (1 - array t ! (i div w) ! (i mod w)) * (100 * (depth_scale cfg / 100))
                  + base_height cfg / 100 * 20"
    using displacedGeometry_ok[OF assms(1,2), of cfg] by blast
  let ?g' = "if auto_center cfg then center g else g"
  have g': "surface_geometry (createMeshFromDepthMap t img cfg s) = Inr ?g'"
    by (rule surface_geometry_create[OF g])
  have idx: "y * w + x < w * h \<and> (y * w + x) div w = y \<and> (y * w + x) mod w = x"
    if "y < h" "x < w" for y x
  proof -
    have "y * w + x < y * w + w" using that by simp
    also have "\<dots> = Suc y * w" by simp
    also have "\<dots> \<le> h * w" using that by (intro mult_le_mono1) simp
    finally show ?thesis using that by (simp add: mult.commute)
  qed
  have cell: "heights g ! (y * w + x)
                = (1 - array t ! y ! x) * (100 * depthScale) + baseHeight * 20"
    if "y < h" "x < w" for y x
    unfolding assms(3) assms(4) using hs[of "y * w + x"] idx[OF that] by simp
  have plain: "heights ?g' ! (y * w + x)
                = (1 - array t ! y ! x) * (100 * depthScale) + baseHeight * 20"
    if "y < h" "x < w" "\<not> auto_center cfg" for y x
    using cell[OF that(1,2)] that(3) by simp
  have shifted: "heights ?g' ! (y * w + x)
                = (1 - array t ! y ! x) * (100 * depthScale) + baseHeight * 20
                  - vz (bbox_center g)"
    if "y < h" "x < w" "auto_center cfg" for y x
    using cell[OF that(1,2)] idx[OF that(1,2)] that(3) len by (simp add: heights_center)
  have flat: "heights ?g' ! i = (1 - d) * 100 * depthScale + baseHeight * 20"
    if const: "\<forall>y<h. \<forall>x<w. array t ! y ! x = d" and off: "\<not> auto_center cfg" and i: "i < w * h" for d i
  proof -
    have w: "0 < w" using i by (cases "w = 0") auto
    have "i div w < h" using i w by (simp add: less_mult_imp_div_less mult.commute)
    moreover have "i mod w < w" using w by simp
    ultimately have "array t ! (i div w) ! (i mod w) = d" using const by blast
    then show ?thesis unfolding assms(3) assms(4) using hs[OF i] off by simp
  qed
  have cells: "\<forall>y<h. \<forall>x<w.
              heights g ! (y * w + x)
                = (1 - array t ! y ! x) * (100 * depthScale) + baseHeight * 20 \<and>
              (\<not> auto_center cfg \<longrightarrow>
                 heights ?g' ! (y * w + x)
                   = (1 - array t ! y ! x) * (100 * depthScale) + baseHeight * 20) \<and>
              (auto_center cfg \<and> 2 \<le> w \<and> 2 \<le> h \<longrightarrow>
                 heights ?g' ! (y * w + x)
                   = (1 - array t ! y ! x) * (100 * depthScale) + baseHeight * 20
                     - vz (bbox_center g))"
    using cell plain shifted by blast
  have flats: "\<forall>d. (\<forall>y<h. \<forall>x<w. array t ! y ! x = d) \<longrightarrow> \<not> auto_center cfg \<longrightarrow>
              (\<forall>i<w * h. heights ?g' ! i = (1 - d) * 100 * depthScale + baseHeight * 20)"
    using flat by blast
  show ?thesis
    using g g' cells flats by (intro exI[of _ g] exI[of _ ?g'] conjI)
qed

theorem C1_height_law_witness:
  "tensor_ok flat_field \<and> shape flat_field = (2, 2) \<and> \<not> auto_center plain_settings \<and>
   (\<exists>g'. surface_geometry (createMeshFromDepthMap flat_field photo plain_settings
               initial_world) = Inr g' \<and>
          heights g' ! 0 = 100 \<and> heights g' ! 1 = 100 \<and>
          heights g' ! 2 = 100 \<and> heights g' ! 3 = 100) \<and>
   tensor_ok checker_field \<and> shape checker_field = (2, 2) \<and>
   (\<exists>g g'. displacedGeometry checker_field
               \<lparr>depth_scale = 100, base_height = 0, use_normal_map = False, auto_center = True\<rparr>
             = Inr g \<and>
           surface_geometry (createMeshFromDepthMap checker_field photo
               \<lparr>depth_scale = 100, base_height = 0, use_normal_map = False, auto_center = True\<rparr>
               initial_world) = Inr g' \<and>
           heights g ! 2 = 0 \<and> heights g ! 3 = 100 \<and>
           heights g' ! 2 = 0 - vz (bbox_center g) \<and>
           heights g' ! 3 = 100 - vz (bbox_center g))"
proof -
  let ?cfg = "\<lparr>depth_scale = 100, base_height = 0, use_normal_map = False, auto_center = True\<rparr>"
  have ok: "tensor_ok checker_field"
    by (simp add: tensor_ok_def checker_field_def)
  have sh: "shape checker_field = (2, 2)"
    by (simp add: checker_field_def)
  have ds: "(1::real) = depth_scale ?cfg / 100" and bh: "(0::real) = base_height ?cfg / 100"
    by simp_all
  obtain g g' where g: "displacedGeometry checker_field ?cfg = Inr g"
    and g': "surface_geometry (createMeshFromDepthMap checker_field photo ?cfg initial_world) = Inr g'"
    and cells: "\<forall>y<2. \<forall>x<2.
        heights g ! (y * 2 + x) = (1 - array checker_field ! y ! x) * (100 * 1) + 0 * 20 \<and>
        (\<not> auto_center ?cfg \<longrightarrow>
           heights g' ! (y * 2 + x) = (1 - array checker_field ! y ! x) * (100 * 1) + 0 * 20) \<and>
        (auto_center ?cfg \<and> (2::nat) \<le> 2 \<and> (2::nat) \<le> 2 \<longrightarrow>
           heights g' ! (y * 2 + x) = (1 - array checker_field ! y ! x) * (100 * 1) + 0 * 20
             - vz (bbox_center g))"
    using C1_height_law[OF ok sh ds bh, of photo initial_world] by blast
  have on: "auto_center ?cfg \<and> (2::nat) \<le> 2 \<and> (2::nat) \<le> 2" by simp
  have c2: "heights g ! (1 * 2 + 0) = 0 \<and> heights g' ! (1 * 2 + 0) = 0 - vz (bbox_center g)"
    using cells[rule_format, of 1 0] on by (simp add: checker_field_def)
  have c3: "heights g ! (1 * 2 + 1) = 100 \<and> heights g' ! (1 * 2 + 1) = 100 - vz (bbox_center g)"
    using cells[rule_format, of 1 1] on by (simp add: checker_field_def)
  have centred: "\<exists>g g'. displacedGeometry checker_field ?cfg = Inr g \<and>
           surface_geometry (createMeshFromDepthMap checker_field photo ?cfg initial_world)
             = Inr g' \<and>
           heights g ! 2 = 0 \<and> heights g ! 3 = 100 \<and>
           heights g' ! 2 = 0 - vz (bbox_center g) \<and>
           heights g' ! 3 = 100 - vz (bbox_center g)"
    using g g' c2 c3 by auto
  have fok: "tensor_ok flat_field"
    by (simp add: tensor_ok_def flat_field_def)
  have fsh: "shape flat_field = (2, 2)"
    by (simp add: flat_field_def)
  have off: "\<not> auto_center plain_settings"
    by (simp add: plain_settings_def)
  have fds: "(1::real) = depth_scale plain_settings / 100"
    and fbh: "(0::real) = base_height plain_settings / 100"
    by (simp_all add: plain_settings_def)
  have const: "\<forall>y<2. \<forall>x<2. array flat_field ! y ! x = (0::real)"
    by (simp add: flat_field_def less_Suc_eq numeral_2_eq_2)
  obtain f' where f': "surface_geometry (createMeshFromDepthMap flat_field photo
        plain_settings initial_world) = Inr f'"
    and law: "\<forall>d. (\<forall>y<2. \<forall>x<2. array flat_field ! y ! x = d) \<longrightarrow>
                \<not> auto_center plain_settings \<longrightarrow>
                (\<forall>i<2 * 2. heights f' ! i = (1 - d) * 100 * 1 + 0 * 20)"
    using C1_height_law[OF fok fsh fds fbh, of photo initial_world] by blast
  have all: "\<forall>i<2 * 2. heights f' ! i = (1 - 0) * 100 * 1 + 0 * 20"
    using law const off by blast
  have "heights f' ! 0 = 100" "heights f' ! 1 = 100" "heights f' ! 2 = 100" "heights f' ! 3 = 100"
    using all by simp_all
  then have flat: "\<exists>g'. surface_geometry (createMeshFromDepthMap flat_field photo
               plain_settings initial_world) = Inr g' \<and>
          heights g' ! 0 = 100 \<and> heights g' ! 1 = 100 \<and>
          heights g' ! 2 = 100 \<and> heights g' ! 3 = 100"
    using f' by auto
  show ?thesis using fok fsh off flat ok sh centred by blast
qed

text \<open>
  The claim as stated fails when the auto-centre checkbox is set: for the constant field
  of value 0 with \<open>depthScale = 1\<close> and \<open>baseHeight = 0\<close> it gives every vertex the
  height 100, and the converter returns a surface whose vertices all have height 0,
  because \<^verbatim>\<open>geometry.center()\<close> runs after the displacement.
\<close>

theorem C1_counterexample:
  "surface_heights (createMeshFromDepthMap flat_field photo
      \<lparr>depth_scale = 100, base_height = 0, use_normal_map = False, auto_center = True\<rparr>
      initial_world) = Inr [0, 0, 0, 0] \<and>
   surface_heights (createMeshFromDepthMap flat_field photo
      \<lparr>depth_scale = 100, base_height = 0, use_normal_map = False, auto_center = True\<rparr>
      initial_world) \<noteq> Inr [100, 100, 100, 100]"
proof -
  have "surface_heights (createMeshFromDepthMap flat_field photo
      \<lparr>depth_scale = 100, base_height = 0, use_normal_map = False, auto_center = True\<rparr>
      initial_world) = Inr [0, 0, 0, 0]"
    unfolding surface_heights_create[OF flat_displaced]
    by (simp add: heights_center)
       (simp add: heights_def getAttribute_position_def bbox_center_eq
          setFromBufferAttribute_def addVectors_def multiplyScalar_def)
  then show ?thesis by simp
qed


text \<open>
  C2. For every depth field of width and height at least 2 (whatever its values), the
  converter returns a surface with exactly \<open>width * height\<close> vertices and
  \<open>(width - 1) * (height - 1) * 2\<close> triangles, that is three times as many indices.
  The connectivity is the fixed row-major grid: the index buffer depends on the width and
  the height only, and the quad in column \<open>qx\<close> of row \<open>qy\<close> contributes, at offset
  \<open>6 * (qy * (width - 1) + qx)\<close>, the two triangles \<open>(a, b, d)\<close> and \<open>(b, c, d)\<close> of
  its corners \<open>a = qx + width * qy\<close>, \<open>b = qx + width * (qy + 1)\<close>,
  \<open>c = (qx + 1) + width * (qy + 1)\<close> and \<open>d = (qx + 1) + width * qy\<close>.
\<close>

theorem C2_grid_counts:
  assumes "tensor_ok t" and "shape t = (h, w)" and "2 \<le> w" and "2 \<le> h"
  shows "\<exists>g ix. surface_geometry (createMeshFromDepthMap t img cfg s) = Inr g \<and>
           position_count g = w * h \<and>
           index g = Some ix \<and>
           ix = plane_indices (int w - 1) (int h - 1) \<and>
           length ix = 3 * ((w - 1) * (h - 1) * 2) \<and>
           (\<forall>qy<h - 1. \<forall>qx<w - 1.
              take 6 (drop (6 * (qy * (w - 1) + qx)) ix) =
                [qx + w * qy, qx + w * (qy + 1), (qx + 1) + w * qy,
                 qx + w * (qy + 1), (qx + 1) + w * (qy + 1), (qx + 1) + w * qy])"
proof -
  let ?ix = "plane_indices (int w - 1) (int h - 1)"
  obtain g where g: "surface_geometry (createMeshFromDepthMap t img cfg s) = Inr g"
    and cnt: "position_count g = w * h" and ix: "index g = Some ?ix"
    using surface_create_ok[OF assms(1,2), of img cfg s] by blast
  have eq: "?ix = plane_indices (int (w - 1)) (int (h - 1))"
    using assms(3,4) by (simp add: of_nat_diff)
  have len: "length ?ix = 3 * ((w - 1) * (h - 1) * 2)"
    unfolding eq by (simp add: length_plane_indices)
  have quad: "take 6 (drop (6 * (qy * (w - 1) + qx)) ?ix) =
                [qx + w * qy, qx + w * (qy + 1), (qx + 1) + w * qy,
                 qx + w * (qy + 1), (qx + 1) + w * (qy + 1), (qx + 1) + w * qy]"
    (is "take 6 (drop ?k ?ix) = ?q")
    if qy: "qy < h - 1" and qx: "qx < w - 1" for qy qx
  proof -
    have q: "?q = quad_indices (Suc (w - 1)) qy qx"
      using assms(3) by (simp add: quad_indices_def Let_def)
    have "qy * (w - 1) + qx < qy * (w - 1) + (w - 1)" using qx by simp
    also have "\<dots> = Suc qy * (w - 1)" by simp
    also have "\<dots> \<le> (h - 1) * (w - 1)" using qy by (intro mult_le_mono1) simp
    finally have "?k + 6 \<le> length ?ix" using len by (simp add: mult.commute)
    moreover have "?ix ! (?k + j) = ?q ! j" if "j < 6" for j
      unfolding eq q using plane_indices_nth[OF qy qx that] by (simp add: mult.commute)
    ultimately have "take (length ?q) (drop ?k ?ix) = ?q"
      by (intro take_drop_eqI) auto
    moreover have "length ?q = 6" by simp
    ultimately show ?thesis by metis
  qed
  show ?thesis using g cnt ix len quad by blast
qed

theorem C2_grid_counts_witness:
  "tensor_ok checker_field \<and> shape checker_field = (2, 2) \<and> (2::nat) \<le> 2 \<and>
   (\<exists>g ix. surface_geometry (createMeshFromDepthMap checker_field photo
               \<lparr>depth_scale = 100, base_height = 0, use_normal_map = True, auto_center = False\<rparr>
               initial_world) = Inr g \<and>
           position_count g = 4 \<and> index g = Some ix \<and> length ix = 6 \<and>
           take 6 (drop 0 ix) = [0, 2, 1, 2, 3, 1])"
proof -
  let ?cfg = "\<lparr>depth_scale = 100, base_height = 0, use_normal_map = True, auto_center = False\<rparr>"
  have ok: "tensor_ok checker_field"
    by (simp add: tensor_ok_def checker_field_def)
  have sh: "shape checker_field = (2, 2)"
    by (simp add: checker_field_def)
  have two: "(2::nat) \<le> 2" by simp
  obtain g ix where g: "surface_geometry (createMeshFromDepthMap checker_field photo ?cfg
         initial_world) = Inr g"
    and cnt: "position_count g = 2 * 2" and ix: "index g = Some ix"
    and len: "length ix = 3 * ((2 - 1) * (2 - 1) * 2)"
    and quads: "\<forall>qy<2 - 1. \<forall>qx<2 - 1.
              take 6 (drop (6 * (qy * (2 - 1) + qx)) ix) =
                [qx + 2 * qy, qx + 2 * (qy + 1), (qx + 1) + 2 * qy,
                 qx + 2 * (qy + 1), (qx + 1) + 2 * (qy + 1), (qx + 1) + 2 * qy]"
    using C2_grid_counts[OF ok sh two two, of photo ?cfg initial_world] by blast
  have "take 6 (drop 0 ix) = [0, 2, 1, 2, 3, 1]"
    using quads[rule_format, of 0 0] by simp
  then show ?thesis using ok sh g cnt ix len by auto
qed


text \<open>
  C3 (amended). For the 2 by 2 depth field \<open>[[0, 1], [1, 0]]\<close> with \<open>depthScale = 1\<close>
  (slider at 100) and \<open>baseHeight = 0\<close>, whatever the texture image and the normal-map
  checkbox: with \<open>autoCenter\<close> off the converter returns the vertex heights
  \<open>[100, 0, 0, 100]\<close> in row-major order, with \<open>autoCenter\<close> on it returns
  \<open>[50, -50, -50, 50]\<close>; in both cases the mesh has exactly the two triangles
  \<open>(0, 2, 1)\<close> and \<open>(2, 3, 1)\<close>.
\<close>

theorem C3_checker_scenario:
  "\<exists>g c. surface_geometry (createMeshFromDepthMap checker_field img
             \<lparr>depth_scale = 100, base_height = 0, use_normal_map = n, auto_center = False\<rparr> s)
             = Inr g \<and>
          heights g = [100, 0, 0, 100] \<and>
          index g = Some [0, 2, 1, 2, 3, 1] \<and>
          surface_geometry (createMeshFromDepthMap checker_field img
             \<lparr>depth_scale = 100, base_height = 0, use_normal_map = n, auto_center = True\<rparr> s)
             = Inr c \<and>
          heights c = [50, - 50, - 50, 50] \<and>
          index c = Some [0, 2, 1, 2, 3, 1] \<and>
          triangles [0, 2, 1, 2, 3, 1] = [(0, 2, 1), (2, 3, 1)]"
proof -
  let ?G = "computeVertexNormals (PlaneGeometry 2 2 1 1
         \<lparr>position := Some [Vector3 (- 1) 1 100, Vector3 1 1 0, Vector3 (- 1) (- 1) 0,
                            Vector3 1 (- 1) 100]\<rparr>)"
  have ix: "index ?G = Some [0, 2, 1, 2, 3, 1]"
    by (simp add: PlaneGeometry_def plane_indices_def quad_indices_def)
  have hs: "heights ?G = [100, 0, 0, 100]"
    by (simp add: heights_def getAttribute_position_def)
  have ctr: "vz (bbox_center ?G) = 50"
    by (simp add: bbox_center_eq setFromBufferAttribute_def addVectors_def multiplyScalar_def)
  have hc: "heights (center ?G) = [50, - 50, - 50, 50]"
    by (simp add: heights_center hs ctr)
  have off: "surface_geometry (createMeshFromDepthMap checker_field img
             \<lparr>depth_scale = 100, base_height = 0, use_normal_map = n, auto_center = False\<rparr> s)
             = Inr ?G"
    using surface_geometry_create[OF checker_displaced[of n False], of img s] by simp
  have on: "surface_geometry (createMeshFromDepthMap checker_field img
             \<lparr>depth_scale = 100, base_height = 0, use_normal_map = n, auto_center = True\<rparr> s)
             = Inr (center ?G)"
    using surface_geometry_create[OF checker_displaced[of n True], of img s] by simp
  show ?thesis
    using off on hs hc ix by (intro exI[of _ ?G] exI[of _ "center ?G"]) (simp add: index_center)
qed

text \<open>
  The claim as stated fails when the auto-centre checkbox is set: the heights of the
  returned surface are then \<open>[50, -50, -50, 50]\<close>, not \<open>[100, 0, 0, 100]\<close>.
\<close>

theorem C3_counterexample:
  "surface_heights (createMeshFromDepthMap checker_field photo
      \<lparr>depth_scale = 100, base_height = 0, use_normal_map = False, auto_center = True\<rparr>
      initial_world) = Inr [50, - 50, - 50, 50] \<and>
   surface_heights (createMeshFromDepthMap checker_field photo
      \<lparr>depth_scale = 100, base_height = 0, use_normal_map = False, auto_center = True\<rparr>
      initial_world) \<noteq> Inr [100, 0, 0, 100]"
proof -
  have "surface_heights (createMeshFromDepthMap checker_field photo
      \<lparr>depth_scale = 100, base_height = 0, use_normal_map = False, auto_center = True\<rparr>
      initial_world) = Inr [50, - 50, - 50, 50]"
    unfolding surface_heights_create[OF checker_displaced]
    by (simp add: heights_center)
       (simp add: heights_def getAttribute_position_def bbox_center_eq
          setFromBufferAttribute_def addVectors_def multiplyScalar_def)
  then show ?thesis by simp
qed


text \<open>
  C4 (amended). The converter does not check the dimensions of the depth field. For every
  depth field whose width or height is less than 2 (and whose rows agree with its shape)
  it raises no error and returns a surface with \<open>width * height\<close> vertices and no
  triangle.
\<close>

theorem C4_degenerate_grid:
  assumes "tensor_ok t" and "shape t = (h, w)" and "w < 2 \<or> h < 2"
  shows "\<not> isl (createMeshFromDepthMap t img cfg s) \<and>
         (\<exists>g. surface_geometry (createMeshFromDepthMap t img cfg s) = Inr g \<and>
              position_count g = w * h \<and> index g = Some [])"
proof -
  obtain g where g: "surface_geometry (createMeshFromDepthMap t img cfg s) = Inr g"
    and cnt: "position_count g = w * h"
    and ix: "index g = Some (plane_indices (int w - 1) (int h - 1))"
    using surface_create_ok[OF assms(1,2), of img cfg s] by blast
  have "\<not> isl (createMeshFromDepthMap t img cfg s)"
    using g by (cases "createMeshFromDepthMap t img cfg s") (simp_all add: surface_geometry_def)
  then show ?thesis using g cnt ix plane_indices_empty[OF assms(3)] by auto
qed

theorem C4_degenerate_grid_witness:
  "tensor_ok column_field \<and> shape column_field = (2, 1) \<and> (1::nat) < 2 \<and>
   \<not> isl (createMeshFromDepthMap column_field photo
      \<lparr>depth_scale = 100, base_height = 0, use_normal_map = False, auto_center = False\<rparr>
      initial_world) \<and>
   (\<exists>g. surface_geometry (createMeshFromDepthMap column_field photo
      \<lparr>depth_scale = 100, base_height = 0, use_normal_map = False, auto_center = False\<rparr>
      initial_world) = Inr g \<and> position_count g = 2 \<and> index g = Some [])"
proof -
  have ok: "tensor_ok column_field"
    by (simp add: tensor_ok_def column_field_def)
  have sh: "shape column_field = (2, 1)"
    by (simp add: column_field_def)
  have deg: "(1::nat) < 2 \<or> (2::nat) < 2" by simp
  show ?thesis
    using C4_degenerate_grid[OF ok sh deg, of photo
       "\<lparr>depth_scale = 100, base_height = 0, use_normal_map = False, auto_center = False\<rparr>"
       initial_world] ok sh
    by simp
qed

text \<open>
  The claim as stated fails: for the single-column field \<open>[[0], [1]]\<close> (width 1) the
  converter returns a surface, with the two vertex heights 100 and 0, and no error.
\<close>

theorem C4_counterexample:
  "surface_heights (createMeshFromDepthMap column_field photo
      \<lparr>depth_scale = 100, base_height = 0, use_normal_map = False, auto_center = False\<rparr>
      initial_world) = Inr [100, 0] \<and>
   \<not> isl (createMeshFromDepthMap column_field photo
      \<lparr>depth_scale = 100, base_height = 0, use_normal_map = False, auto_center = False\<rparr>
      initial_world)"
proof -
  let ?cfg = "\<lparr>depth_scale = 100, base_height = 0, use_normal_map = False, auto_center = False\<rparr>"
  have ok: "tensor_ok column_field"
    by (simp add: tensor_ok_def column_field_def)
  have sh: "shape column_field = (2, 1)"
    by (simp add: column_field_def)
  obtain g where g: "displacedGeometry column_field ?cfg = Inr g"
    and len: "length (heights g) = 1 * 2"
    and hs: "\<And>i. i < 1 * 2 \<Longrightarrow> heights g ! i =
                (1 - array column_field ! (i div 1) ! (i mod 1)) * (100 * (depth_scale ?cfg / 100))
                  + base_height ?cfg / 100 * 20"
    using displacedGeometry_ok[OF ok sh, of ?cfg] by blast
  have "heights g ! 0 = 100" using hs[of 0] by (simp add: column_field_def)
  moreover have "heights g ! 1 = 0" using hs[of 1] by (simp add: column_field_def)
  ultimately have "heights g = [100, 0]" using len by (intro heights_eq_2) auto
  then have "surface_heights (createMeshFromDepthMap column_field photo ?cfg initial_world)
               = Inr [100, 0]"
    using surface_heights_create[OF g, of photo initial_world] by simp
  then show ?thesis
    by (cases "createMeshFromDepthMap column_field photo ?cfg initial_world")
       (simp_all add: surface_heights_def)
qed


text \<open>
  C5 (the code does otherwise). The claim: export preparation works on a clone and leaves
  the live surface's vertex positions unchanged. The program clones the mesh node only;
  the clone refers to the same geometry object, and \<^verbatim>\<open>optimizedMesh.geometry.center()\<close>
  moves the vertices of the live surface (its transform, material and texture stay as
  they were). For the surface generated from the checker field
  with the auto-centre checkbox clear, the live heights are \<open>[100, 0, 0, 100]\<close> before the
  export and \<open>[50, -50, -50, 50]\<close> after it, whatever the serializer answers; the
  request handed to the serializer names the live surface's own geometry.
\<close>

theorem C5_export_moves_live_surface:
  "current_heights live_world = Some [100, 0, 0, 100] \<and>
   current_heights (downloadGLB parse upload now live_world) = Some [50, - 50, - 50, 50] \<and>
   currentMesh (downloadGLB parse upload now live_world) = currentMesh live_world \<and>
   materials (downloadGLB parse upload now live_world) = materials live_world \<and>
   textures (downloadGLB parse upload now live_world) = textures live_world \<and>
   map geometry (scene live_world) = [Some 0] \<and>
   map (geometry \<circ> export_mesh) (exporter_calls (downloadGLB parse upload now live_world))
     = [Some 0]"
proof -
  let ?mesh = "\<lparr>uuid = 3, geometry = Some 0, material = Some 2,
                 mesh_position = Vector3 0 0 0, rotation = Vector3 (- (pi / 2)) 0 0\<rparr>"
  let ?ps = "[Vector3 (- 1) 1 100, Vector3 1 1 0, Vector3 (- 1) (- 1) 0, Vector3 1 (- 1) 100]"
  have cm: "currentMesh live_world = Some ?mesh" by (rule live_world_sel)
  have g: "geometry ?mesh = Some 0" by simp
  have m: "material ?mesh = Some 2" by simp
  have ps: "position (geometries live_world 0) = Some ?ps" by (simp add: live_world_sel)
  have ne: "?ps \<noteq> []" by simp
  have t: "mat_map (materials live_world 2) = Some 1" by (simp add: live_world_sel)
  note eff = download_effect[OF cm g ps ne m t, of parse upload now]
  have after: "current_heights (downloadGLB parse upload now live_world)
                 = Some [50, - 50, - 50, 50]"
    using eff by (simp add: current_heights_def mesh_geometry_def heights_optimized
        live_centred_heights)
  obtain req w3 where
    w3: "w3 = live_world\<lparr>downloadBtn_disabled := True,
            next_ref := Suc (next_ref live_world),
            geometries := (geometries live_world)
              (0 := computeBoundingSphere (computeBoundingBox
                      (computeVertexNormals (center (geometries live_world 0))))),
            exporter_calls := exporter_calls live_world @ [req]\<rparr>"
    and em: "export_mesh req = ?mesh\<lparr>uuid := next_ref live_world,
                             mesh_position := Vector3 0 0 0,
                             rotation := Vector3 (- (pi / 2)) 0 0\<rparr>"
    and run: "downloadGLB parse upload now live_world =
       (case parse req of
          SerializerFailed msg \<Rightarrow> export_failed (ExportSerializationError msg) w3
        | Serialized result \<Rightarrow>
            w3\<lparr>downloads := downloads w3 @
                 [(takeWhile (\<lambda>c. c \<noteq> CHR ''.'')
                     (case upload of None \<Rightarrow> ''image''
                      | Some n \<Rightarrow> if n = [] then ''image'' else n)
                   @ ''_3d_'' @ map (\<lambda>c. if c = CHR '':'' \<or> c = CHR ''.''
                                           then CHR ''-'' else c) now @ ''.glb'', result)],
               cleanup_timers := cleanup_timers w3 @ [export_mesh req],
               downloadBtn_disabled := False\<rparr>)"
    using download_valid[OF cm g ps ne m t, of parse upload now] by blast
  have calls: "map (geometry \<circ> export_mesh)
                 (exporter_calls (downloadGLB parse upload now live_world)) = [Some 0]"
    unfolding run
    by (cases "parse req") (simp_all add: w3 em export_failed_def live_world_sel)
  show ?thesis
    using live_heights after eff cm calls by (simp add: live_world_sel)
qed


text \<open>
  C6 (the code does otherwise). The claim: when the serializer's failure callback fires,
  the error is reported with its message, no file is produced, and the live surface is
  unchanged. The first two parts hold; the third does not, by the defect of C5: the
  shared geometry has been centred before the serializer is called. For the surface
  generated from the checker field, a serializer that fails with "out of memory" leaves
  the alert "out of memory", no download, and the live heights \<open>[50, -50, -50, 50]\<close>
  instead of \<open>[100, 0, 0, 100]\<close>.
\<close>

theorem C6_failed_export_moves_live_surface:
  "alerts (downloadGLB (\<lambda>req. SerializerFailed ''out of memory'') upload now live_world)
     = [''out of memory''] \<and>
   downloads (downloadGLB (\<lambda>req. SerializerFailed ''out of memory'') upload now live_world)
     = [] \<and>
   scene (downloadGLB (\<lambda>req. SerializerFailed ''out of memory'') upload now live_world)
     = scene live_world \<and>
   current_heights live_world = Some [100, 0, 0, 100] \<and>
   current_heights (downloadGLB (\<lambda>req. SerializerFailed ''out of memory'') upload now live_world)
     = Some [50, - 50, - 50, 50]"
proof -
  let ?mesh = "\<lparr>uuid = 3, geometry = Some 0, material = Some 2,
                 mesh_position = Vector3 0 0 0, rotation = Vector3 (- (pi / 2)) 0 0\<rparr>"
  let ?ps = "[Vector3 (- 1) 1 100, Vector3 1 1 0, Vector3 (- 1) (- 1) 0, Vector3 1 (- 1) 100]"
  have cm: "currentMesh live_world = Some ?mesh" by (rule live_world_sel)
  have g: "geometry ?mesh = Some 0" by simp
  have m: "material ?mesh = Some 2" by simp
  have ps: "position (geometries live_world 0) = Some ?ps" by (simp add: live_world_sel)
  have ne: "?ps \<noteq> []" by simp
  have t: "mat_map (materials live_world 2) = Some 1" by (simp add: live_world_sel)
  have msg: "''out of memory'' \<noteq> []" by simp
  note eff = download_effect[OF cm g ps ne m t,
      of "\<lambda>req. SerializerFailed ''out of memory''" upload now]
  note fail = download_failure[OF cm g ps ne m t msg, of upload now]
  have after: "current_heights (downloadGLB (\<lambda>req. SerializerFailed ''out of memory'')
                  upload now live_world) = Some [50, - 50, - 50, 50]"
    using eff by (simp add: current_heights_def mesh_geometry_def heights_optimized
        live_centred_heights)
  show ?thesis
    using fail eff after live_heights by (simp add: live_world_sel)
qed


text \<open>
  C7. The pre-export checks run in the order geometry, vertex count, texture. For every
  current mesh that has a geometry with at least one vertex but no texture bound (no
  material, or a material without a map), validation fails with \<open>MissingTextureError\<close>,
  not with \<open>MissingGeometryError\<close> or \<open>EmptyMeshError\<close>, and the export ends there:
  the user is alerted with that error's message, no file is produced, the serializer is
  not called and no object of the store is touched. A mesh without a geometry is rejected
  with \<open>MissingGeometryError\<close> and one whose geometry has no vertices with
  \<open>EmptyMeshError\<close>, whether or not a texture is bound.
\<close>

theorem C7_validation_order:
  assumes "currentMesh w = Some mesh" and "geometry mesh = Some g"
    and "position (geometries w g) = Some ps" and "ps \<noteq> []"
    and "\<not> has_texture w mesh"
  shows "validateModelForExport w mesh = Inl MissingTextureError \<and>
         validateModelForExport w mesh \<noteq> Inl MissingGeometryError \<and>
         validateModelForExport w mesh \<noteq> Inl EmptyMeshError \<and>
         downloadGLB parse upload now w = export_failed MissingTextureError w \<and>
         alerts (downloadGLB parse upload now w) = alerts w @ [''El modelo no tiene textura valida''] \<and>
         downloads (downloadGLB parse upload now w) = downloads w \<and>
         exporter_calls (downloadGLB parse upload now w) = exporter_calls w \<and>
         geometries (downloadGLB parse upload now w) = geometries w \<and>
         validateModelForExport w (mesh\<lparr>geometry := None\<rparr>) = Inl MissingGeometryError \<and>
         validateModelForExport (w\<lparr>geometries := (geometries w)(g := geometries w g\<lparr>position := Some []\<rparr>)\<rparr>) mesh
            = Inl EmptyMeshError"
proof -
  have v: "validateModelForExport w mesh = Inl MissingTextureError"
    using assms(2-5)
    by (auto simp: validateModelForExport_def position_count_def has_texture_def
          split: option.splits)
  have d: "downloadGLB parse upload now w = export_failed MissingTextureError w"
    using assms(1) v by (simp add: downloadGLB_def)
  have e: "validateModelForExport (w\<lparr>geometries := (geometries w)(g := geometries w g\<lparr>position := Some []\<rparr>)\<rparr>) mesh
            = Inl EmptyMeshError"
    using assms(2) by (simp add: validateModelForExport_def position_count_def)
  show ?thesis
    unfolding d using v e
    by (simp add: export_failed_def error_message_def validateModelForExport_def)
qed

theorem C7_validation_order_witness:
  "currentMesh bare_world = Some bare_mesh \<and> geometry bare_mesh = Some 0 \<and>
   position_count (geometries bare_world 0) = 4 \<and>
   \<not> has_texture bare_world bare_mesh \<and>
   validateModelForExport bare_world bare_mesh = Inl MissingTextureError \<and>
   alerts (downloadGLB (\<lambda>req. Serialized []) None ''2026-01-01T00:00:00.000Z'' bare_world)
     = [''El modelo no tiene textura valida''] \<and>
   downloads (downloadGLB (\<lambda>req. Serialized []) None ''2026-01-01T00:00:00.000Z'' bare_world)
     = []"
proof -
  have cm: "currentMesh bare_world = Some bare_mesh"
    by (simp add: bare_world_def)
  have g: "geometry bare_mesh = Some 0"
    by (simp add: bare_mesh_def)
  have ps: "position (geometries bare_world 0) = Some (plane_vertices 2 2 1 1)"
    by (simp add: bare_world_def PlaneGeometry_def)
  have ne: "plane_vertices 2 2 1 1 \<noteq> []"
    by (simp add: plane_2x2)
  have nt: "\<not> has_texture bare_world bare_mesh"
    by (simp add: has_texture_def bare_mesh_def)
  note th = C7_validation_order[OF cm g ps ne nt, of "\<lambda>req. Serialized []" None
        "''2026-01-01T00:00:00.000Z''"]
  have v: "validateModelForExport bare_world bare_mesh = Inl MissingTextureError"
    using th by blast
  have a: "alerts (downloadGLB (\<lambda>req. Serialized []) None ''2026-01-01T00:00:00.000Z'' bare_world)
             = alerts bare_world @ [''El modelo no tiene textura valida'']"
    using th by blast
  have d: "downloads (downloadGLB (\<lambda>req. Serialized []) None ''2026-01-01T00:00:00.000Z'' bare_world)
             = downloads bare_world"
    using th by blast
  have cnt: "position_count (geometries bare_world 0) = 4"
    using ps by (simp add: position_count_def plane_2x2)
  have "alerts bare_world = []" "downloads bare_world = []"
    by (simp_all add: bare_world_def initial_world_def)
  then show ?thesis using cm g cnt nt v a d by simp
qed


text \<open>
  C8. For every current mesh that passes validation, with \<open>V\<close> vertices in its position
  attribute, the export hands the serializer exactly one request, whose metadata has
  \<open>vertices = V\<close> and \<open>faces\<close> equal to the index count divided by 3, or 0 if the
  geometry has no index. So a surface with \<open>T\<close> triangles, that is \<open>3 * T\<close> indices,
  is reported with \<open>faces = T\<close>.
\<close>

theorem C8_metadata_counts:
  assumes "currentMesh w = Some mesh"
    and "validateModelForExport w mesh = Inr True"
    and "geometry mesh = Some g"
    and "position (geometries w g) = Some ps"
  shows "\<exists>req. exporter_calls (downloadGLB parse upload now w) = exporter_calls w @ [req] \<and>
           vertices (metadata (export_options req)) = length ps \<and>
           faces (metadata (export_options req)) =
             (case index (geometries w g) of
                Some ix \<Rightarrow> real (length ix) / 3
              | None \<Rightarrow> 0) \<and>
           (\<forall>ix T. index (geometries w g) = Some ix \<and> length ix = 3 * T \<longrightarrow>
              faces (metadata (export_options req)) = real T)"
proof -
  obtain m t where m: "material mesh = Some m" and t: "mat_map (materials w m) = Some t"
    and ne: "ps \<noteq> []"
    using assms(2-4) by (auto simp: validate_ok_iff)
  obtain req w3 where
    w3: "w3 = w\<lparr>downloadBtn_disabled := True,
            next_ref := Suc (next_ref w),
            geometries := (geometries w)
              (g := computeBoundingSphere (computeBoundingBox
                      (computeVertexNormals (center (geometries w g))))),
            exporter_calls := exporter_calls w @ [req]\<rparr>"
    and vs: "vertices (metadata (export_options req)) = length ps"
    and fs: "faces (metadata (export_options req)) =
        (case index (geometries w g) of Some ix \<Rightarrow> real (length ix) / 3 | None \<Rightarrow> 0)"
    and run: "downloadGLB parse upload now w =
       (case parse req of
          SerializerFailed msg \<Rightarrow> export_failed (ExportSerializationError msg) w3
        | Serialized result \<Rightarrow>
            w3\<lparr>downloads := downloads w3 @
                 [(takeWhile (\<lambda>c. c \<noteq> CHR ''.'')
                     (case upload of None \<Rightarrow> ''image''
                      | Some n \<Rightarrow> if n = [] then ''image'' else n)
                   @ ''_3d_'' @ map (\<lambda>c. if c = CHR '':'' \<or> c = CHR ''.''
                                           then CHR ''-'' else c) now @ ''.glb'', result)],
               cleanup_timers := cleanup_timers w3 @ [export_mesh req],
               downloadBtn_disabled := False\<rparr>)"
    using download_valid[OF assms(1,3,4) ne m t, of parse upload now] by blast
  have calls: "exporter_calls (downloadGLB parse upload now w) = exporter_calls w @ [req]"
    unfolding run by (cases "parse req") (simp_all add: w3 export_failed_def)
  have tri: "faces (metadata (export_options req)) = real T"
    if "index (geometries w g) = Some ix" "length ix = 3 * T" for ix T
    using fs that by simp
  show ?thesis using calls vs fs tri by blast
qed

theorem C8_metadata_counts_witness:
  "currentMesh live_world \<noteq> None \<and>
   (\<exists>req. exporter_calls (downloadGLB (\<lambda>r. Serialized [103, 108, 84, 70]) (Some ''cat.png'')
        ''2026-01-01T00:00:00.000Z'' live_world) = [req] \<and>
      vertices (metadata (export_options req)) = 4 \<and>
      faces (metadata (export_options req)) = 2)"
proof -
  let ?mesh = "\<lparr>uuid = 3, geometry = Some 0, material = Some 2,
                 mesh_position = Vector3 0 0 0, rotation = Vector3 (- (pi / 2)) 0 0\<rparr>"
  have cm: "currentMesh live_world = Some ?mesh"
    by (rule live_world_sel)
  have g: "geometry ?mesh = Some 0" by simp
  have ps: "position (geometries live_world 0) = Some [Vector3 (- 1) 1 100, Vector3 1 1 0,
              Vector3 (- 1) (- 1) 0, Vector3 1 (- 1) 100]"
    by (simp add: live_world_sel)
  have ix: "index (geometries live_world 0) = Some [0, 2, 1, 2, 3, 1]"
    by (simp add: live_world_sel PlaneGeometry_def plane_indices_def quad_indices_def)
  have v: "validateModelForExport live_world ?mesh = Inr True"
    by (simp add: validate_ok_iff ps live_world_sel)
  obtain req where "exporter_calls (downloadGLB (\<lambda>r. Serialized [103, 108, 84, 70])
        (Some ''cat.png'') ''2026-01-01T00:00:00.000Z'' live_world)
          = exporter_calls live_world @ [req]"
    and "vertices (metadata (export_options req)) = length [Vector3 (- 1) 1 100, Vector3 1 1 0,
              Vector3 (- 1) (- 1) 0, Vector3 1 (- 1) 100]"
    and "faces (metadata (export_options req)) =
             (case index (geometries live_world 0) of
                Some ix \<Rightarrow> real (length ix) / 3
              | None \<Rightarrow> 0)"
    using C8_metadata_counts[OF cm v g ps, of "\<lambda>r. Serialized [103, 108, 84, 70]"
        "Some ''cat.png''" "''2026-01-01T00:00:00.000Z''"] by blast
  then show ?thesis using cm ix by (intro conjI exI[of _ req]) (simp_all add: live_world_sel)
qed


text \<open>
  C9. Centring is idempotent. For every geometry, the bounding box of the vertex positions
  is centred at the origin after \<^verbatim>\<open>geometry.center()\<close> has run once, and again after it
  has run twice; the second run leaves every vertex position where the first put it.
  (Over exact reals; unindexed geometries and geometries without vertices included.)
\<close>

theorem C9_center_idempotent:
  "bbox_center (center g) = Vector3 0 0 0 \<and>
   bbox_center (center (center g)) = Vector3 0 0 0 \<and>
   position (center (center g)) = position (center g)"
  by (simp add: bbox_center_center position_center_center)


text \<open>
  C10 (the code does otherwise). The claim: whenever the current surface is replaced, its
  geometry, its texture and its material are released before it is discarded, and no
  replaced surface retains an unreleased resource. Both rebuild paths do call
  \<^verbatim>\<open>dispose()\<close> on the previous geometry and material, but never on the texture, which
  is created anew with every mesh: after a second generation from the state
  \<open>live_world\<close> the first surface is gone from the scene, its geometry (object 0) and
  material (object 2) are disposed, and its texture (object 1) is not. And the handlers can
  overlap: when a second slider event arrives while the first handler is suspended, both
  handlers release the same old mesh, both build a new one, and the mesh the first one
  built (node 7, geometry 4, texture 5, material 6) is replaced by the second one's
  (node 11) while it stays in the scene with nothing of it disposed.
\<close>

theorem C10_replaced_surface_not_released:
  "mat_map (materials live_world 2) = Some 1 \<and>
   events (onGenerate (Some flat_field) photo plain_settings live_world) =
     [Created (GeometryRes 0), Created (TextureRes 1), Created (MaterialRes 2),
      Disposed (GeometryRes 0), Disposed (MaterialRes 2),
      Created (GeometryRes 4), Created (TextureRes 5), Created (MaterialRes 6)] \<and>
   updateMeshGeometry True (Some flat_field) photo plain_settings live_world
     = onGenerate (Some flat_field) photo plain_settings live_world \<and>
   map uuid (scene live_world) = [3] \<and>
   map uuid (scene (onGenerate (Some flat_field) photo plain_settings live_world)) = [7] \<and>
   Disposed (TextureRes 1)
     \<notin> set (events (onGenerate (Some flat_field) photo plain_settings live_world)) \<and>
   events (overlapping_updates flat_field flat_field photo plain_settings live_world) =
     [Created (GeometryRes 0), Created (TextureRes 1), Created (MaterialRes 2),
      Disposed (GeometryRes 0), Disposed (MaterialRes 2),
      Disposed (GeometryRes 0), Disposed (MaterialRes 2),
      Created (GeometryRes 4), Created (TextureRes 5), Created (MaterialRes 6),
      Created (GeometryRes 8), Created (TextureRes 9), Created (MaterialRes 10)] \<and>
   map uuid (scene (overlapping_updates flat_field flat_field photo plain_settings live_world))
     = [7, 11] \<and>
   map geometry (scene (overlapping_updates flat_field flat_field photo plain_settings live_world))
     = [Some 4, Some 8] \<and>
   map material (scene (overlapping_updates flat_field flat_field photo plain_settings live_world))
     = [Some 6, Some 10] \<and>
   map_option uuid
     (currentMesh (overlapping_updates flat_field flat_field photo plain_settings live_world))
     = Some 11"
proof -
  let ?old = "\<lparr>uuid = 3, geometry = Some 0, material = Some 2,
                 mesh_position = Vector3 0 0 0, rotation = Vector3 (- (pi / 2)) 0 0\<rparr>"
  have d: "displacedGeometry flat_field plain_settings =
      Inr (computeVertexNormals (PlaneGeometry 2 2 1 1
         \<lparr>position := Some [Vector3 (- 1) 1 100, Vector3 1 1 100, Vector3 (- 1) (- 1) 100,
                            Vector3 1 (- 1) 100]\<rparr>))"
    unfolding plain_settings_def by (rule flat_displaced)
  note r = replace_current[OF live_world_sel(1) _ _ d, of 0 2 photo, simplified]
  have alone: "events (onGenerate (Some flat_field) photo plain_settings live_world) =
     [Created (GeometryRes 0), Created (TextureRes 1), Created (MaterialRes 2),
      Disposed (GeometryRes 0), Disposed (MaterialRes 2),
      Created (GeometryRes 4), Created (TextureRes 5), Created (MaterialRes 6)]"
    "map uuid (scene (onGenerate (Some flat_field) photo plain_settings live_world)) = [7]"
    unfolding r by (simp_all add: live_world_sel)
  have same: "updateMeshGeometry True (Some flat_field) photo plain_settings live_world
     = onGenerate (Some flat_field) photo plain_settings live_world"
    by (rule update_eq_generate[OF live_world_sel(1)])
  have b1: "updateMeshGeometry_begin True (Some flat_field) live_world =
      Inr (live_world\<lparr>scene := [],
             events := events live_world @ [Disposed (GeometryRes 0), Disposed (MaterialRes 2)]\<rparr>)"
    (is "_ = Inr ?w1")
    by (simp add: updateMeshGeometry_begin_def live_world_sel releaseMesh_def Let_def)
  have b2: "updateMeshGeometry_begin True (Some flat_field) ?w1 =
      Inr (?w1\<lparr>events := events ?w1 @ [Disposed (GeometryRes 0), Disposed (MaterialRes 2)]\<rparr>)"
    (is "_ = Inr ?w2")
    by (simp add: updateMeshGeometry_begin_def live_world_sel releaseMesh_def Let_def)
  have run: "overlapping_updates flat_field flat_field photo plain_settings live_world =
      installNewMesh flat_field photo plain_settings
        (installNewMesh flat_field photo plain_settings ?w2)"
    unfolding overlapping_updates_def by (simp only: b1 b2 sum.case)
  have over: "events (overlapping_updates flat_field flat_field photo plain_settings live_world) =
     [Created (GeometryRes 0), Created (TextureRes 1), Created (MaterialRes 2),
      Disposed (GeometryRes 0), Disposed (MaterialRes 2),
      Disposed (GeometryRes 0), Disposed (MaterialRes 2),
      Created (GeometryRes 4), Created (TextureRes 5), Created (MaterialRes 6),
      Created (GeometryRes 8), Created (TextureRes 9), Created (MaterialRes 10)]"
    "map uuid (scene (overlapping_updates flat_field flat_field photo plain_settings live_world))
       = [7, 11]"
    "map geometry (scene (overlapping_updates flat_field flat_field photo plain_settings live_world))
       = [Some 4, Some 8]"
    "map material (scene (overlapping_updates flat_field flat_field photo plain_settings live_world))
       = [Some 6, Some 10]"
    "map_option uuid
       (currentMesh (overlapping_updates flat_field flat_field photo plain_settings live_world))
       = Some 11"
    unfolding run by (simp_all add: installNewMesh_world[OF d] live_world_sel)
  show ?thesis
    using alone same over by (simp add: live_world_sel)
qed

end
